theory Spec2Isabelle
  imports Complex_Main "HOL-Library.Sublist"
begin

section \<open>Pairwise RMS statistics across states: \<^verbatim>\<open>rms_calculator.py\<close>\<close>

text \<open>
  The module has one entry point, \<^verbatim>\<open>calculate_rms_stats\<close>, with three nested helpers
  (\<^verbatim>\<open>compute_mode\<close>, \<^verbatim>\<open>summarize\<close>, \<^verbatim>\<open>format_report_lines\<close>) and an inline export
  block. It talks to the molecular toolkit (\<^verbatim>\<open>cmd.count_states\<close>, \<^verbatim>\<open>cmd.count_atoms\<close>,
  \<^verbatim>\<open>cmd.intra_fit\<close>), to the console (\<^verbatim>\<open>print\<close>) and to the file system. In the model
  the surroundings are a record of functions, every call to them is an event of a trace,
  and every exception is a value.

  Conventions of the model.
  \<^item> A Python float is \<open>Fl r\<close> for a real \<open>r\<close>, or \<open>NaN\<close>. Arithmetic on \<open>Fl\<close> is exact:
    rounding and the infinities of IEEE doubles are left out.
  \<^item> A Python \<^verbatim>\<open>str\<close> is a list of code points below 256 (the Latin-1 block), one
    \<^typ>\<open>char\<close> per code point; the character classes below are the ones
    \<^verbatim>\<open>str.isalnum\<close>, \<^verbatim>\<open>str.isspace\<close> and \<^verbatim>\<open>str.lower\<close> have on that block.
  \<^item> Arguments have the types of the signature: \<^verbatim>\<open>obj_to_fit: Optional[str]\<close>,
    \<^verbatim>\<open>selection: str\<close>, \<^verbatim>\<open>display_level: int\<close>.
\<close>

subsection \<open>Floats and the \<^verbatim>\<open>statistics\<close> module\<close>

datatype pyfloat = Fl real | NaN

text \<open>The comparison \<^verbatim>\<open>x >= 0\<close>: false on \<^verbatim>\<open>nan\<close>.\<close>

fun ge0 :: "pyfloat \<Rightarrow> bool" where
  "ge0 (Fl r) = (0 \<le> r)"
| "ge0 NaN = False"

datatype exn =
    ValueError string
  | StatisticsError string
  | OverflowError string
  | OSError string
  | PrintError string

text \<open>The reals of a list of floats, or \<open>None\<close> when one of them is \<^verbatim>\<open>nan\<close>.\<close>

fun reals_of :: "pyfloat list \<Rightarrow> real list option" where
  "reals_of [] = Some []"
| "reals_of (NaN # xs) = None"
| "reals_of (Fl r # xs) = (case reals_of xs of None \<Rightarrow> None | Some rs \<Rightarrow> Some (r # rs))"

text \<open>\<^verbatim>\<open>statistics.mean\<close>: raises on an empty list; \<^verbatim>\<open>nan\<close> propagates.\<close>

definition statistics_mean :: "pyfloat list \<Rightarrow> exn + pyfloat" where
  "statistics_mean xs =
     (if xs = [] then Inl (StatisticsError ''mean requires at least one data point'')
      else case reals_of xs of
             None \<Rightarrow> Inr NaN
           | Some rs \<Rightarrow> Inr (Fl (sum_list rs / real (length rs))))"

text \<open>
  \<^verbatim>\<open>statistics.stdev\<close>: raises below two values; otherwise the square root of the sum of
  squared deviations from the mean over \<open>n - 1\<close>.
\<close>

definition statistics_stdev :: "pyfloat list \<Rightarrow> exn + pyfloat" where
  "statistics_stdev xs =
     (if length xs < 2 then Inl (StatisticsError ''stdev requires at least two data points'')
      else case reals_of xs of
             None \<Rightarrow> Inr NaN
           | Some rs \<Rightarrow>
               (let c = sum_list rs / real (length rs);
                    ss = sum_list (map (\<lambda>x. (x - c)\<^sup>2) rs)
                in Inr (Fl (sqrt (ss / (real (length rs) - 1))))))"

subsection \<open>Strings: \<^verbatim>\<open>str()\<close>, format specifications, character classes\<close>

definition digit_char :: "nat \<Rightarrow> char" where
  "digit_char d =
     (if d = 0 then CHR ''0'' else if d = 1 then CHR ''1'' else if d = 2 then CHR ''2''
      else if d = 3 then CHR ''3'' else if d = 4 then CHR ''4'' else if d = 5 then CHR ''5''
      else if d = 6 then CHR ''6'' else if d = 7 then CHR ''7'' else if d = 8 then CHR ''8''
      else CHR ''9'')"

fun str_nat :: "nat \<Rightarrow> string" where
  "str_nat n = (if n < 10 then [digit_char n] else str_nat (n div 10) @ [digit_char (n mod 10)])"

declare str_nat.simps [simp del]

text \<open>\<^verbatim>\<open>str(i)\<close> for an integer.\<close>

definition str_int :: "int \<Rightarrow> string" where
  "str_int i = (if i < 0 then CHR ''-'' # str_nat (nat (- i)) else str_nat (nat i))"

text \<open>The format specifications \<^verbatim>\<open><w\<close> and \<^verbatim>\<open>>w\<close>: pad with spaces, never cut.\<close>

definition ljust :: "nat \<Rightarrow> string \<Rightarrow> string" where
  "ljust w s = s @ replicate (w - length s) CHR '' ''"

definition rjust :: "nat \<Rightarrow> string \<Rightarrow> string" where
  "rjust w s = replicate (w - length s) CHR '' '' @ s"

definition zfill :: "nat \<Rightarrow> string \<Rightarrow> string" where
  "zfill w s = replicate (w - length s) CHR ''0'' @ s"

text \<open>Rounding to the nearest integer, ties to the even one.\<close>

definition round_half_even :: "real \<Rightarrow> int" where
  "round_half_even x =
     (let f = \<lfloor>x\<rfloor>; d = x - of_int f
      in if d < 1 / 2 then f else if 1 / 2 < d then f + 1 else if even f then f else f + 1)"

text \<open>The format specification \<^verbatim>\<open>.3f\<close> on a finite value.\<close>

definition fmt_3f :: "real \<Rightarrow> string" where
  "fmt_3f r =
     (let k = nat (round_half_even (\<bar>r\<bar> * 1000))
      in (if r < 0 then ''-'' else '''') @ str_nat (k div 1000) @ ''.'' @ zfill 3 (str_nat (k mod 1000)))"

text \<open>\<^verbatim>\<open>str.join\<close> with a separator.\<close>

fun join :: "string \<Rightarrow> string list \<Rightarrow> string" where
  "join sep [] = ''''"
| "join sep [x] = x"
| "join sep (x # y # ys) = x @ sep @ join sep (y # ys)"

definition code_point :: "char \<Rightarrow> nat" where
  "code_point c = of_char c"

text \<open>\<^verbatim>\<open>str.isalnum\<close> on one character of the Latin-1 block.\<close>

definition py_isalnum :: "char \<Rightarrow> bool" where
  "py_isalnum c =
     (let n = code_point c
      in (48 \<le> n \<and> n \<le> 57) \<or> (65 \<le> n \<and> n \<le> 90) \<or> (97 \<le> n \<and> n \<le> 122)
         \<or> n = 170 \<or> n = 178 \<or> n = 179 \<or> n = 181 \<or> n = 185 \<or> n = 186
         \<or> n = 188 \<or> n = 189 \<or> n = 190
         \<or> (192 \<le> n \<and> n \<le> 214) \<or> (216 \<le> n \<and> n \<le> 246) \<or> 248 \<le> n)"

text \<open>\<^verbatim>\<open>str.isspace\<close> on one character of the Latin-1 block.\<close>

definition py_isspace :: "char \<Rightarrow> bool" where
  "py_isspace c =
     (let n = code_point c
      in (9 \<le> n \<and> n \<le> 13) \<or> (28 \<le> n \<and> n \<le> 32) \<or> n = 133 \<or> n = 160)"

text \<open>\<^verbatim>\<open>str.lower\<close> on one character of the Latin-1 block.\<close>

definition lower_char :: "char \<Rightarrow> char" where
  "lower_char c =
     (let n = code_point c
      in if (65 \<le> n \<and> n \<le> 90) \<or> (192 \<le> n \<and> n \<le> 214) \<or> (216 \<le> n \<and> n \<le> 222)
         then char_of (n + 32) else c)"

definition lower :: "string \<Rightarrow> string" where
  "lower s = map lower_char s"

text \<open>\<^verbatim>\<open>s.strip()\<close> and \<^verbatim>\<open>s.strip("_")\<close>.\<close>

definition strip_chars :: "(char \<Rightarrow> bool) \<Rightarrow> string \<Rightarrow> string" where
  "strip_chars P s = rev (dropWhile P (rev (dropWhile P s)))"

definition strip :: "string \<Rightarrow> string" where
  "strip s = strip_chars py_isspace s"

subsection \<open>The surroundings: toolkit, console, clock, file system\<close>

text \<open>An element of a sequence the toolkit returns: \<^verbatim>\<open>float(x)\<close> gives a float or raises.\<close>

datatype pyelem = Elem pyfloat | NotFloat

fun is_elem :: "pyelem \<Rightarrow> bool" where
  "is_elem (Elem x) = True"
| "is_elem NotFloat = False"

fun elem_float :: "pyelem \<Rightarrow> pyfloat" where
  "elem_float (Elem x) = x"
| "elem_float NotFloat = NaN"

text \<open>
  What \<^verbatim>\<open>cmd.intra_fit\<close> hands back: \<^verbatim>\<open>None\<close>, one number, a sequence, or an object
  that cannot be iterated.
\<close>

datatype rms_reply = ReplyNone | ReplyScalar pyfloat | ReplySeq "pyelem list" | ReplyOther

text \<open>The path written to: the path given, or a file name inside the directory given.\<close>

datatype fpath = Literal string | InDir string string

record datetime =
  year :: nat
  month :: nat
  day :: nat
  hour :: nat
  minute :: nat
  second :: nat

text \<open>
  Each collaborator is a function of its arguments; \<open>Inl\<close> carries the text of the exception
  it raises. \<open>write_text\<close> stands for creating the parent directory, writing the text and
  resolving the path, and gives the resolved path.
\<close>

record env =
  count_states :: "string \<Rightarrow> string + int"
  count_atoms :: "string \<Rightarrow> string + int"
  intra_fit :: "string \<Rightarrow> int \<Rightarrow> string + rms_reply"
  is_dir :: "string \<Rightarrow> string + bool"
  now :: datetime
  write_text :: "fpath \<Rightarrow> string \<Rightarrow> string + string"
  getcwd :: string

datatype event =
    CountStates string
  | CountAtoms string
  | IntraFit string int
  | Print string
  | IsDir string
  | Now
  | WriteText fpath string

fun is_print :: "event \<Rightarrow> bool" where
  "is_print (Print s) = True"
| "is_print e = False"


text \<open>The wrapper \<^verbatim>\<open>_p\<close>: prints unless \<^verbatim>\<open>quiet\<close>.\<close>

definition underscore_p :: "bool \<Rightarrow> string \<Rightarrow> event list" where
  "underscore_p quiet s = (if \<not> quiet then [Print s] else [])"

subsection \<open>\<^verbatim>\<open>compute_mode\<close>\<close>

text \<open>
  Lines 167-175: \<^verbatim>\<open>None\<close> becomes the empty list, a number a one-element list, a sequence
  the list of its floats, or the empty list when one conversion (or the iteration) raises.
\<close>

fun normalize :: "rms_reply \<Rightarrow> pyfloat list" where
  "normalize ReplyNone = []"
| "normalize (ReplyScalar x) = [x]"
| "normalize (ReplySeq es) = (if list_all is_elem es then map elem_float es else [])"
| "normalize ReplyOther = []"

type_synonym mode_acc = "(int \<rightharpoonup> pyfloat) \<times> pyfloat list \<times> (int \<rightharpoonup> pyfloat list)"

text \<open>One iteration of the loop of lines 158-187, on the three local variables.\<close>

definition compute_state ::
  "env \<Rightarrow> bool \<Rightarrow> string \<Rightarrow> int \<Rightarrow> mode_acc \<Rightarrow> (exn + mode_acc) \<times> event list" where
  "compute_state e quiet selection_string state_idx acc =
     (case acc of (per_state_means, all_rms, per_state_pairs) \<Rightarrow>
        (case intra_fit e selection_string state_idx of
           Inl exc \<Rightarrow>
             (Inr (per_state_means(state_idx \<mapsto> NaN), all_rms, per_state_pairs(state_idx \<mapsto> [])),
              IntraFit selection_string state_idx
                # underscore_p quiet (''Warning: intra_fit failed for state '' @ str_int state_idx
                            @ '' on selection '' @ [CHR 0x27] @ selection_string @ [CHR 0x27]
                            @ '': '' @ exc))
         | Inr rms_values \<Rightarrow>
             (let rms_filtered = filter ge0 (normalize rms_values);
                  per_state_pairs' = per_state_pairs(state_idx \<mapsto> rms_filtered)
              in if rms_filtered \<noteq> [] then
                   (case statistics_mean rms_filtered of
                      Inl x \<Rightarrow> (Inl x, [IntraFit selection_string state_idx])
                    | Inr m \<Rightarrow>
                        (Inr (per_state_means(state_idx \<mapsto> m), all_rms @ rms_filtered,
                              per_state_pairs'),
                         [IntraFit selection_string state_idx]))
                 else
                   (Inr (per_state_means(state_idx \<mapsto> NaN), all_rms, per_state_pairs'),
                    [IntraFit selection_string state_idx]))))"

fun compute_loop ::
  "env \<Rightarrow> bool \<Rightarrow> string \<Rightarrow> int list \<Rightarrow> mode_acc \<Rightarrow> (exn + mode_acc) \<times> event list" where
  "compute_loop e quiet sel [] acc = (Inr acc, [])"
| "compute_loop e quiet sel (i # idxs) acc =
     (case compute_state e quiet sel i acc of
        (Inl x, ev) \<Rightarrow> (Inl x, ev)
      | (Inr acc', ev) \<Rightarrow>
          (case compute_loop e quiet sel idxs acc' of (r, ev') \<Rightarrow> (r, ev @ ev')))"

text \<open>\<^verbatim>\<open>range(1, states + 1)\<close> is \<open>[1..states]\<close>, empty when \<open>states < 1\<close>.\<close>

definition compute_mode ::
  "env \<Rightarrow> bool \<Rightarrow> int \<Rightarrow> string \<Rightarrow> (exn + mode_acc) \<times> event list" where
  "compute_mode e quiet n selection_string =
     compute_loop e quiet selection_string [1..n] (Map.empty, [], Map.empty)"

subsection \<open>The result and \<^verbatim>\<open>summarize\<close>\<close>

record mode_result =
  per_state_means :: "int \<rightharpoonup> pyfloat"
  per_state_pairs :: "int \<rightharpoonup> pyfloat list"
  all_rms :: "pyfloat list"
  overall_mean :: pyfloat
  overall_sd :: pyfloat

record analysis_result =
  mode_all :: mode_result
  mode_no_hydrogen :: mode_result
  selection :: "string option"
  atom_counts_all :: "int option"
  atom_counts_no_hydrogen :: "int option"
  states :: int
  report_file :: "string option"
  error :: "string option"

definition empty_mode :: mode_result where
  "empty_mode =
     \<lparr>per_state_means = Map.empty, per_state_pairs = Map.empty, all_rms = [],
      overall_mean = NaN, overall_sd = NaN\<rparr>"

text \<open>The dictionary of lines 95-117.\<close>

definition initial_result :: analysis_result where
  "initial_result =
     \<lparr>mode_all = empty_mode, mode_no_hydrogen = empty_mode, selection = None,
      atom_counts_all = None, atom_counts_no_hydrogen = None, states = 0,
      report_file = None, error = None\<rparr>"

definition summarize ::
  "mode_result \<Rightarrow> (int \<rightharpoonup> pyfloat) \<Rightarrow> pyfloat list \<Rightarrow> (int \<rightharpoonup> pyfloat list) \<Rightarrow> exn + mode_result" where
  "summarize mode_dict per_state rms_list pairs =
     (let d = mode_dict\<lparr>per_state_means := per_state, per_state_pairs := pairs,
                         all_rms := rms_list\<rparr>
      in if rms_list \<noteq> [] then
           (case statistics_mean rms_list of
              Inl x \<Rightarrow> Inl x
            | Inr m \<Rightarrow>
                (if 1 < length rms_list then
                   (case statistics_stdev rms_list of
                      Inl x \<Rightarrow> Inl x
                    | Inr sd \<Rightarrow> Inr (d\<lparr>overall_mean := m, overall_sd := sd\<rparr>))
                 else Inr (d\<lparr>overall_mean := m, overall_sd := NaN\<rparr>)))
         else Inr (d\<lparr>overall_mean := NaN, overall_sd := NaN\<rparr>))"

subsection \<open>\<^verbatim>\<open>format_report_lines\<close>\<close>

fun fmt_num :: "pyfloat \<Rightarrow> string" where
  "fmt_num NaN = ''nan''"
| "fmt_num (Fl r) = fmt_3f r"

text \<open>\<^verbatim>\<open>d.get(state_idx, math.nan)\<close> and \<^verbatim>\<open>d.get(state_idx, [])\<close>.\<close>

definition get_mean :: "mode_result \<Rightarrow> int \<Rightarrow> pyfloat" where
  "get_mean m i = (case per_state_means m i of None \<Rightarrow> NaN | Some x \<Rightarrow> x)"

definition get_pairs :: "mode_result \<Rightarrow> int \<Rightarrow> pyfloat list" where
  "get_pairs m i = (case per_state_pairs m i of None \<Rightarrow> [] | Some xs \<Rightarrow> xs)"

definition natoms_str :: "int option \<Rightarrow> string" where
  "natoms_str natoms = (case natoms of None \<Rightarrow> ''?'' | Some n \<Rightarrow> str_int n)"

text \<open>Lines 235 and 354: the selection is neither blank nor \<^verbatim>\<open>all\<close> in any case.\<close>

definition selection_provided :: "string \<Rightarrow> bool" where
  "selection_provided sel = (strip sel \<noteq> [] \<and> lower (strip sel) \<noteq> ''all'')"

definition dashes :: "nat \<Rightarrow> string" where
  "dashes n = replicate n CHR ''-''"

text \<open>One row of the summary table (line 274).\<close>

definition summary_row :: "string \<Rightarrow> int option \<Rightarrow> mode_result \<Rightarrow> string" where
  "summary_row name natoms m =
     ljust 16 name @ '' '' @ rjust 7 (natoms_str natoms) @ '' ''
       @ rjust 9 (str_nat (length (all_rms m))) @ '' ''
       @ rjust 10 (fmt_num (overall_mean m)) @ '' '' @ rjust 10 (fmt_num (overall_sd m))"

definition state_table_header :: string where
  "state_table_header = rjust 5 ''State'' @ '' '' @ rjust 12 ''Mean RMS'' @ '' '' @ rjust 10 ''#pairs''"

text \<open>One row of a per-state table (lines 286-288 and 295-297).\<close>

definition state_row :: "mode_result \<Rightarrow> int \<Rightarrow> string" where
  "state_row m state_idx =
     rjust 5 (str_int state_idx) @ '' '' @ rjust 12 (fmt_num (get_mean m state_idx)) @ '' ''
       @ rjust 10 (str_nat (length (get_pairs m state_idx)))"

definition pair_table_header :: string where
  "pair_table_header = rjust 7 ''Pair #'' @ '' '' @ rjust 12 ''RMS''"

text \<open>The rows of \<^verbatim>\<open>enumerate(pairs, start=1)\<close>, from index \<open>i\<close> on.\<close>

fun pair_rows :: "nat \<Rightarrow> pyfloat list \<Rightarrow> string list" where
  "pair_rows i [] = []"
| "pair_rows i (val # vals) =
     (rjust 7 (str_nat i) @ '' '' @ rjust 12 (fmt_num val)) # pair_rows (Suc i) vals"

definition pair_lines :: "pyfloat list \<Rightarrow> string list" where
  "pair_lines pairs = (if pairs \<noteq> [] then pair_rows 1 pairs else [''   (no pair RMS values)''])"

text \<open>The body of the loop of lines 303-325, for one state.\<close>

definition detail_state :: "analysis_result \<Rightarrow> int \<Rightarrow> string list" where
  "detail_state result state_idx =
     [[],
      ''State '' @ str_int state_idx @ '' - All atoms (mean = ''
        @ fmt_num (get_mean (mode_all result) state_idx) @ '')'',
      pair_table_header,
      dashes 22]
     @ pair_lines (get_pairs (mode_all result) state_idx)
     @ [[],
        ''State '' @ str_int state_idx @ '' - Heavy atoms (mean = ''
          @ fmt_num (get_mean (mode_no_hydrogen result) state_idx) @ '')'',
        pair_table_header,
        dashes 22]
     @ pair_lines (get_pairs (mode_no_hydrogen result) state_idx)
     @ [dashes 60]"

definition display_level_str :: "int \<Rightarrow> string" where
  "display_level_str display_level =
     (if display_level = 0 then ''0 (average values only)''
      else if display_level = 1 then ''1 (global average and per-state means included)''
      else ''2 (full detail)'')"

text \<open>
  The closure \<^verbatim>\<open>format_report_lines\<close> reads \<^verbatim>\<open>display_level\<close>, \<^verbatim>\<open>selection\<close>,
  \<^verbatim>\<open>base_selection\<close>, \<^verbatim>\<open>states\<close> and \<^verbatim>\<open>result\<close>; here they are arguments
  (\<^verbatim>\<open>states\<close> is the field of the result, set at line 134). The empty line is \<open>[]\<close>.
\<close>

definition format_report_lines ::
  "int \<Rightarrow> string \<Rightarrow> string \<Rightarrow> analysis_result \<Rightarrow> string list" where
  "format_report_lines display_level sel base_selection result =
     [[],
      ''*****************************'',
      ''* RMS Statistics Calculator *'',
      ''*****************************'',
      [],
      ''The level of detail in this report has been set to => '' @ display_level_str display_level,
      [],
      ''############ Data selection ############'']
     @ (if \<not> selection_provided sel then
          [''Note: no explicit selection was provided, so the script selected all atoms in the object.'',
           ''If you want a subset (for example only chain A), pass a selection string via the 'selection' argument, e.g.: selection='chain A'' @ [CHR 0x27],
           ''It is not necessary to explicitely exlude hydrogen atoms. RMS statistics are calculated both including and excluding hydrogens automatically.'',
           []]
        else [])
     @ [[],
        ''xxxxxxxxxxxxxxxxxxxxxxxxxxxxxxxxxxxxxxxx'',
        ''Resolved selection: '' @ base_selection,
        ''States inspected: '' @ str_int (states result),
        ''Atoms selected:'',
        ''  All: '' @ natoms_str (atom_counts_all result),
        ''  Heavy (no H): '' @ natoms_str (atom_counts_no_hydrogen result),
        ''xxxxxxxxxxxxxxxxxxxxxxxxxxxxxxxxxxxxxxxx'',
        [],
        ''########################################'',
        [],
        ''======================== RMS Summary ========================'',
        ljust 16 ''Mode'' @ '' '' @ rjust 7 ''#atoms'' @ '' '' @ rjust 9 ''#values'' @ '' ''
          @ rjust 10 ''mean'' @ '' '' @ rjust 10 ''sd'',
        dashes 60,
        summary_row ''All atoms'' (atom_counts_all result) (mode_all result),
        summary_row ''Heavy atoms'' (atom_counts_no_hydrogen result) (mode_no_hydrogen result),
        dashes 60]
     @ (if 1 \<le> display_level then
          [''Average RMS per state (showing NaN where unavailable):'',
           [],
           ''All atoms:'',
           state_table_header,
           dashes 34]
          @ map (state_row (mode_all result)) [1..states result]
          @ [[],
             ''Heavy atoms (no H):'',
             state_table_header,
             dashes 34]
          @ map (state_row (mode_no_hydrogen result)) [1..states result]
          @ [dashes 60]
        else [])
     @ (if 2 \<le> display_level then
          ''Detailed per-state individual pair RMS values:''
            # concat (map (detail_state result) [1..states result])
        else if display_level = 0 then
          [''(Average RMS per state and detailed per-pair output suppressed; set display_level>=1 to enable per-state means or display_level==2 for full detail)'']
        else if display_level = 1 then
          [''(Detailed per-pair output suppressed; set display_level==2 to enable)'']
        else [])
     @ [''========================================================'',
        []]"

subsection \<open>The export block (lines 345-387)\<close>

text \<open>Lines 350 and 356: keep alphanumerics, the hyphen and the underscore.\<close>

definition safe_char :: "char \<Rightarrow> char" where
  "safe_char c = (if py_isalnum c \<or> c = CHR ''-'' \<or> c = CHR ''_'' then c else CHR ''_'')"

text \<open>\<^verbatim>\<open>"__" in s\<close> and \<^verbatim>\<open>s.replace("__", "_")\<close> (occurrences from the left, not overlapping).\<close>

fun has_dd :: "string \<Rightarrow> bool" where
  "has_dd (a # b # rest) = ((a = CHR ''_'' \<and> b = CHR ''_'') \<or> has_dd (b # rest))"
| "has_dd s = False"

fun replace_dd :: "string \<Rightarrow> string" where
  "replace_dd (a # b # rest) =
     (if a = CHR ''_'' \<and> b = CHR ''_'' then CHR ''_'' # replace_dd rest
      else a # replace_dd (b # rest))"
| "replace_dd s = s"

lemma length_replace_dd_le: "length (replace_dd s) \<le> length s"
  by (induction s rule: replace_dd.induct) auto

lemma length_replace_dd_less: "has_dd s \<Longrightarrow> length (replace_dd s) < length s"
proof (induction s rule: replace_dd.induct)
  case (1 a b rest)
  show ?case
  proof (cases "a = CHR ''_'' \<and> b = CHR ''_''")
    case True
    then show ?thesis
      using length_replace_dd_le [of rest] by simp
  next
    case False
    with 1 show ?thesis by auto
  qed
qed simp_all

text \<open>The loop of lines 358-359.\<close>

function collapse_underscores :: "string \<Rightarrow> string" where
  "collapse_underscores s = (if has_dd s then collapse_underscores (replace_dd s) else s)"
  by pat_completeness auto
termination
  by (relation "measure length") (auto simp: length_replace_dd_less)

declare collapse_underscores.simps [simp del]

text \<open>
  \<^verbatim>\<open>strftime("%Y%m%d_%H%M%S")\<close>: the year on four digits at least, the other fields on two.
\<close>

definition strftime :: "datetime \<Rightarrow> string" where
  "strftime d =
     zfill 4 (str_nat (year d)) @ zfill 2 (str_nat (month d)) @ zfill 2 (str_nat (day d))
       @ ''_'' @ zfill 2 (str_nat (hour d)) @ zfill 2 (str_nat (minute d))
       @ zfill 2 (str_nat (second d))"

text \<open>Lines 350-366: the name of the report inside a directory.\<close>

definition report_filename :: "string \<Rightarrow> string \<Rightarrow> datetime \<Rightarrow> string" where
  "report_filename obj_to_fit sel d =
     (let safe_obj = take 30 (map safe_char obj_to_fit);
          include_sel = (strip sel \<noteq> [] \<and> lower (strip sel) \<noteq> ''all'');
          sel_part =
            (if include_sel then
               ''_sel_''
                 @ take 40 (strip_chars (\<lambda>c. c = CHR ''_'') (collapse_underscores (map safe_char sel)))
             else [])
      in ''rms_report_'' @ safe_obj @ sel_part @ ''_'' @ strftime d @ ''.txt'')"

definition quoted :: "string \<Rightarrow> string" where
  "quoted s = [CHR 0x27] @ s @ [CHR 0x27]"

definition newline :: string where
  "newline = [CHR 0x0A]"

text \<open>The \<^verbatim>\<open>except\<close> clause of lines 380-383.\<close>

definition export_failed ::
  "bool \<Rightarrow> string \<Rightarrow> analysis_result \<Rightarrow> string \<Rightarrow> analysis_result \<times> event list" where
  "export_failed quiet report_path result exc =
     (let err = ''Failed to write report to '' @ quoted report_path @ '': '' @ exc
      in (result\<lparr>error := Some (case error result of None \<Rightarrow> err | Some old \<Rightarrow> old @ ''; '' @ err)\<rparr>,
          underscore_p quiet err))"

text \<open>The \<^verbatim>\<open>try\<close> block of lines 346-379.\<close>

definition export_report_file ::
  "env \<Rightarrow> bool \<Rightarrow> string \<Rightarrow> string \<Rightarrow> string \<Rightarrow> string list \<Rightarrow> analysis_result
     \<Rightarrow> analysis_result \<times> event list" where
  "export_report_file e quiet obj_to_fit sel report_path report_lines result =
     (case is_dir e report_path of
        Inl exc \<Rightarrow>
          (case export_failed quiet report_path result exc of
             (r, ev) \<Rightarrow> (r, IsDir report_path # ev))
      | Inr dir \<Rightarrow>
          (let file_path =
                 (if dir then InDir report_path (report_filename obj_to_fit sel (now e))
                  else Literal report_path);
               ev0 = (if dir then [IsDir report_path, Now] else [IsDir report_path]);
               text = join newline report_lines @ newline
           in case write_text e file_path text of
                Inl exc \<Rightarrow>
                  (case export_failed quiet report_path result exc of
                     (r, ev) \<Rightarrow> (r, ev0 @ WriteText file_path text # ev))
              | Inr resolved \<Rightarrow>
                  (result\<lparr>report_file := Some resolved\<rparr>,
                   ev0 @ WriteText file_path text
                     # (if \<not> quiet then underscore_p quiet (''Report exported to: '' @ resolved)
                        else []))))"

subsection \<open>\<^verbatim>\<open>calculate_rms_stats\<close>\<close>

datatype outcome = Raised exn | Help string | Returned analysis_result

definition help_lines :: "string list" where
  "help_lines =
     [[],
      ''calculate_rms_stats usage:'',
      ''  calculate_rms_stats(obj_to_fit, selection='all', quiet=False, display_level=1, export_report=False, report_path='.')'',
      [],
      ''Arguments:'',
      ''  obj_to_fit   : (required) object name or selection to analyze. If omitted, this help is returned.'',
      ''  selection    : additional PyMOL selection (default: 'all')'',
      ''  quiet        : suppress printing when True'',
      ''  display_level: 0 -> summary only, 1 -> include per-state means, 2 -> full per-pair detail (default 1)'',
      ''  export_report: write report to file when True (default False)'',
      ''  report_path  : file path or directory for exported report, defaults to current working directory (default '.')'',
      [],
      ''Behavior:'',
      ''  The function computes RMS statistics twice: including all (selected) atoms, and excluding hydrogens.'',
      ''  Returns a dict with the analysis when run; when called with no obj_to_fit, returns this help:'',
      []]"

definition help_text :: string where
  "help_text = join newline help_lines"

text \<open>Lines 141-151: one atom count, a warning and \<^verbatim>\<open>None\<close> when the query raises.\<close>

definition try_count_atoms :: "env \<Rightarrow> bool \<Rightarrow> string \<Rightarrow> int option \<times> event list" where
  "try_count_atoms e quiet s =
     (case count_atoms e s of
        Inl exc \<Rightarrow>
          (None,
           CountAtoms s
             # underscore_p quiet (''Warning: failed to count atoms for selection '' @ quoted s
                                   @ '': '' @ exc))
      | Inr k \<Rightarrow> (Some k, [CountAtoms s]))"

text \<open>Lines 337-387: print the report, then export it or say how to.\<close>

definition present ::
  "env \<Rightarrow> string \<Rightarrow> string \<Rightarrow> bool \<Rightarrow> int \<Rightarrow> bool \<Rightarrow> string \<Rightarrow> string \<Rightarrow> analysis_result
     \<Rightarrow> analysis_result \<times> event list" where
  "present e obj_to_fit sel quiet display_level export_report report_path base_selection result =
     (let report_lines = format_report_lines display_level sel base_selection result;
          ev = concat (map (underscore_p quiet) report_lines)
      in if export_report then
           (case export_report_file e quiet obj_to_fit sel report_path report_lines result of
              (r, ev') \<Rightarrow> (r, ev @ ev'))
         else
           (result,
            ev @ underscore_p quiet ''To export the report to a file, set export_report=True''
               @ underscore_p quiet ''Set a specified path with the 'report_path' argument.''
               @ underscore_p quiet
                   (''In absence of a specified path, the report will be saved in the current working directory: ''
                    @ getcwd e)))"

text \<open>Lines 136-389: what follows a successful state count \<open>n\<close>.\<close>

definition analyse ::
  "env \<Rightarrow> string \<Rightarrow> string \<Rightarrow> bool \<Rightarrow> int \<Rightarrow> bool \<Rightarrow> string \<Rightarrow> string \<Rightarrow> analysis_result
     \<Rightarrow> outcome \<times> event list" where
  "analyse e obj_to_fit sel quiet display_level export_report report_path base_selection result0 =
     (let sel_all = base_selection;
          sel_no_h = base_selection @ '' and (not hydro)'';
          n = states result0
      in case try_count_atoms e quiet sel_all of (natoms_all, ev1) \<Rightarrow>
         case try_count_atoms e quiet sel_no_h of (natoms_no_h, ev2) \<Rightarrow>
         (let result1 = result0\<lparr>atom_counts_all := natoms_all,
                                  atom_counts_no_hydrogen := natoms_no_h\<rparr>
          in case compute_mode e quiet n sel_all of
               (Inl x, ev3) \<Rightarrow> (Raised x, ev1 @ ev2 @ ev3)
             | (Inr (per_all, all_rms_all, per_pairs_all), ev3) \<Rightarrow>
          (case compute_mode e quiet n sel_no_h of
               (Inl x, ev4) \<Rightarrow> (Raised x, ev1 @ ev2 @ ev3 @ ev4)
             | (Inr (per_no_h, all_rms_no_h, per_pairs_no_h), ev4) \<Rightarrow>
          (case summarize (mode_all result1) per_all all_rms_all per_pairs_all of
               Inl x \<Rightarrow> (Raised x, ev1 @ ev2 @ ev3 @ ev4)
             | Inr m_all \<Rightarrow>
          (case summarize (mode_no_hydrogen result1) per_no_h all_rms_no_h per_pairs_no_h of
               Inl x \<Rightarrow> (Raised x, ev1 @ ev2 @ ev3 @ ev4)
             | Inr m_no_h \<Rightarrow>
          (case present e obj_to_fit sel quiet display_level export_report report_path
                  base_selection (result1\<lparr>mode_all := m_all, mode_no_hydrogen := m_no_h\<rparr>) of
               (r, ev5) \<Rightarrow> (Returned r, ev1 @ ev2 @ ev3 @ ev4 @ ev5)))))))"

definition calculate_rms_stats ::
  "env \<Rightarrow> string option \<Rightarrow> string \<Rightarrow> bool \<Rightarrow> int \<Rightarrow> bool \<Rightarrow> string \<Rightarrow> outcome \<times> event list" where
  "calculate_rms_stats e obj_to_fit sel quiet display_level export_report report_path =
     (case obj_to_fit of
        None \<Rightarrow> (Help help_text, if \<not> quiet then [Print help_text] else [])
      | Some obj \<Rightarrow>
          if display_level \<noteq> 0 \<and> display_level \<noteq> 1 \<and> display_level \<noteq> 2 then
            (Raised (ValueError ''display_level must be 0, 1, or 2''), [])
          else
            (let base_selection = ''('' @ obj @ '') and ('' @ sel @ '')'';
                 result = initial_result\<lparr>selection := Some base_selection\<rparr>
             in case count_states e obj of
                  Inl exc \<Rightarrow>
                    (let err = ''Failed to determine states for '' @ quoted obj @ '': '' @ exc
                     in (Returned (result\<lparr>error := Some err\<rparr>),
                         CountStates obj # underscore_p quiet err))
                | Inr n \<Rightarrow>
                    (case analyse e obj sel quiet display_level export_report report_path
                            base_selection (result\<lparr>states := n\<rparr>) of
                       (out, ev) \<Rightarrow> (out, CountStates obj # ev))))"

section \<open>The run when printing, the working directory and a conversion can fail\<close>

text \<open>
  The functions above take \<^verbatim>\<open>print\<close> and \<^verbatim>\<open>os.getcwd()\<close> as calls that always succeed, and a
  number returned by the toolkit as one that \<^verbatim>\<open>float()\<close> accepts. The source guards none of
  the three, with one exception: the \<^verbatim>\<open>print\<close> of line 379 is inside the \<^verbatim>\<open>try\<close> of lines
  346-379. The functions of this section are the same code with these calls able to raise.
  A float stays a real number or \<open>NaN\<close>: an infinite value, on which \<^verbatim>\<open>statistics.stdev\<close>
  raises at line 203, is not among the replies of the toolkit here.
\<close>

text \<open>
  What can go wrong: \<^verbatim>\<open>print(s)\<close> raises (the text of the exception), \<^verbatim>\<open>os.getcwd()\<close>
  raises, and the value \<^verbatim>\<open>cmd.intra_fit\<close> returns for a selection and a state is an
  \<^verbatim>\<open>int\<close> beyond the range of floats, on which \<^verbatim>\<open>float()\<close> raises \<^verbatim>\<open>OverflowError\<close> at line
  170 (the reply of \<open>intra_fit\<close> in the environment is then not looked at).
\<close>

record faults =
  print_raises :: "string \<Rightarrow> string option"
  getcwd_raises :: "string option"
  huge_int :: "string \<Rightarrow> int \<Rightarrow> bool"

definition no_faults :: faults where
  "no_faults = \<lparr>print_raises = (\<lambda>s. None), getcwd_raises = None, huge_int = (\<lambda>s i. False)\<rparr>"

text \<open>A step gives a value or an exception, and the events up to there.\<close>

type_synonym 'a step = "(exn + 'a) \<times> event list"

definition returns :: "'a \<Rightarrow> 'a step" where
  "returns a = (Inr a, [])"

definition raises :: "exn \<Rightarrow> 'a step" where
  "raises x = (Inl x, [])"

definition emit :: "event \<Rightarrow> unit step" where
  "emit ev = (Inr (), [ev])"

definition and_then :: "'a step \<Rightarrow> ('a \<Rightarrow> 'b step) \<Rightarrow> 'b step" where
  "and_then m k =
     (case m of
        (Inl x, ev) \<Rightarrow> (Inl x, ev)
      | (Inr a, ev) \<Rightarrow> (case k a of (r, ev') \<Rightarrow> (r, ev @ ev')))"

text \<open>
  The wrapper \<^verbatim>\<open>_p\<close> with a \<^verbatim>\<open>print\<close> that may raise; \<open>PrintError\<close> stands for whatever
  \<^verbatim>\<open>print\<close> raises, with its text.
\<close>

definition p_with :: "faults \<Rightarrow> bool \<Rightarrow> string \<Rightarrow> unit step" where
  "p_with f quiet s =
     (if \<not> quiet then
        (case print_raises f s of None \<Rightarrow> emit (Print s) | Some x \<Rightarrow> raises (PrintError x))
      else returns ())"

text \<open>
  Lines 158-187, with \<open>means\<close>, \<open>rms\<close> and \<open>pairs\<close> for the three local variables. A
  \<^verbatim>\<open>print\<close> that raises inside the handler of lines 161-165 leaves the
  function; so does \<^verbatim>\<open>float()\<close> at line 170.
\<close>

definition compute_state_with ::
  "faults \<Rightarrow> env \<Rightarrow> bool \<Rightarrow> string \<Rightarrow> int \<Rightarrow> mode_acc \<Rightarrow> mode_acc step" where
  "compute_state_with f e quiet selection_string state_idx acc =
     (case acc of (means, rms, pairs) \<Rightarrow>
        and_then (emit (IntraFit selection_string state_idx)) (\<lambda>u.
          case intra_fit e selection_string state_idx of
            Inl exc \<Rightarrow>
              and_then
                (p_with f quiet (''Warning: intra_fit failed for state '' @ str_int state_idx
                                 @ '' on selection '' @ [CHR 0x27] @ selection_string @ [CHR 0x27]
                                 @ '': '' @ exc))
                (\<lambda>u. returns (means(state_idx \<mapsto> NaN), rms,
                              pairs(state_idx \<mapsto> [])))
          | Inr rms_values \<Rightarrow>
              if huge_int f selection_string state_idx then
                raises (OverflowError ''int too large to convert to float'')
              else
                (let rms_filtered = filter ge0 (normalize rms_values);
                     pairs' = pairs(state_idx \<mapsto> rms_filtered)
                 in if rms_filtered \<noteq> [] then
                      (case statistics_mean rms_filtered of
                         Inl x \<Rightarrow> raises x
                       | Inr m \<Rightarrow>
                           returns (means(state_idx \<mapsto> m), rms @ rms_filtered,
                                    pairs'))
                    else returns (means(state_idx \<mapsto> NaN), rms, pairs'))))"

fun compute_loop_with ::
  "faults \<Rightarrow> env \<Rightarrow> bool \<Rightarrow> string \<Rightarrow> int list \<Rightarrow> mode_acc \<Rightarrow> mode_acc step" where
  "compute_loop_with f e quiet sel [] acc = returns acc"
| "compute_loop_with f e quiet sel (i # idxs) acc =
     and_then (compute_state_with f e quiet sel i acc) (compute_loop_with f e quiet sel idxs)"

definition compute_mode_with :: "faults \<Rightarrow> env \<Rightarrow> bool \<Rightarrow> int \<Rightarrow> string \<Rightarrow> mode_acc step" where
  "compute_mode_with f e quiet n selection_string =
     compute_loop_with f e quiet selection_string [1..n] (Map.empty, [], Map.empty)"

text \<open>Lines 141-151.\<close>

definition try_count_atoms_with :: "faults \<Rightarrow> env \<Rightarrow> bool \<Rightarrow> string \<Rightarrow> int option step" where
  "try_count_atoms_with f e quiet s =
     and_then (emit (CountAtoms s)) (\<lambda>u.
       case count_atoms e s of
         Inl exc \<Rightarrow>
           and_then
             (p_with f quiet (''Warning: failed to count atoms for selection '' @ quoted s
                              @ '': '' @ exc))
             (\<lambda>u. returns None)
       | Inr k \<Rightarrow> returns (Some k))"

text \<open>Lines 341-342.\<close>

fun print_lines_with :: "faults \<Rightarrow> bool \<Rightarrow> string list \<Rightarrow> unit step" where
  "print_lines_with f quiet [] = returns ()"
| "print_lines_with f quiet (l # ls) =
     and_then (p_with f quiet l) (\<lambda>u. print_lines_with f quiet ls)"

text \<open>The \<^verbatim>\<open>except\<close> clause of lines 380-383; its \<^verbatim>\<open>print\<close> is not guarded.\<close>

definition export_failed_with ::
  "faults \<Rightarrow> bool \<Rightarrow> string \<Rightarrow> analysis_result \<Rightarrow> string \<Rightarrow> analysis_result step" where
  "export_failed_with f quiet report_path result exc =
     (let err = ''Failed to write report to '' @ quoted report_path @ '': '' @ exc
      in and_then (p_with f quiet err) (\<lambda>u.
           returns (result\<lparr>error := Some (case error result of None \<Rightarrow> err
                                               | Some old \<Rightarrow> old @ ''; '' @ err)\<rparr>)))"

text \<open>
  The \<^verbatim>\<open>try\<close> block of lines 346-379. The \<^verbatim>\<open>print\<close> of line 379 is inside it: when it
  raises, after \<^verbatim>\<open>report_file\<close> has been set at line 377, the handler runs.
\<close>

definition export_report_file_with ::
  "faults \<Rightarrow> env \<Rightarrow> bool \<Rightarrow> string \<Rightarrow> string \<Rightarrow> string \<Rightarrow> string list \<Rightarrow> analysis_result
     \<Rightarrow> analysis_result step" where
  "export_report_file_with f e quiet obj_to_fit sel report_path report_lines result =
     and_then (emit (IsDir report_path)) (\<lambda>u.
       case is_dir e report_path of
         Inl exc \<Rightarrow> export_failed_with f quiet report_path result exc
       | Inr dir \<Rightarrow>
           (let file_path =
                  (if dir then InDir report_path (report_filename obj_to_fit sel (now e))
                   else Literal report_path);
                text = join newline report_lines @ newline
            in and_then (if dir then emit Now else returns ()) (\<lambda>u.
               and_then (emit (WriteText file_path text)) (\<lambda>u.
                 case write_text e file_path text of
                   Inl exc \<Rightarrow> export_failed_with f quiet report_path result exc
                 | Inr resolved \<Rightarrow>
                     (let result' = result\<lparr>report_file := Some resolved\<rparr>
                      in if \<not> quiet then
                           (case print_raises f (''Report exported to: '' @ resolved) of
                              None \<Rightarrow>
                                and_then (emit (Print (''Report exported to: '' @ resolved)))
                                  (\<lambda>u. returns result')
                            | Some x \<Rightarrow> export_failed_with f quiet report_path result' x)
                         else returns result')))))"

text \<open>
  Lines 337-387. \<^verbatim>\<open>os.getcwd()\<close> is evaluated for the argument of the last \<^verbatim>\<open>_p\<close>, also
  when \<^verbatim>\<open>quiet\<close>.
\<close>

definition present_with ::
  "faults \<Rightarrow> env \<Rightarrow> string \<Rightarrow> string \<Rightarrow> bool \<Rightarrow> int \<Rightarrow> bool \<Rightarrow> string \<Rightarrow> string
     \<Rightarrow> analysis_result \<Rightarrow> analysis_result step" where
  "present_with f e obj_to_fit sel quiet display_level export_report report_path base_selection result =
     (let report_lines = format_report_lines display_level sel base_selection result
      in and_then (print_lines_with f quiet report_lines) (\<lambda>u.
           if export_report then
             export_report_file_with f e quiet obj_to_fit sel report_path report_lines result
           else
             and_then (p_with f quiet ''To export the report to a file, set export_report=True'') (\<lambda>u.
             and_then (p_with f quiet ''Set a specified path with the 'report_path' argument.'') (\<lambda>u.
               case getcwd_raises f of
                 Some x \<Rightarrow> raises (OSError x)
               | None \<Rightarrow>
                   and_then
                     (p_with f quiet
                        (''In absence of a specified path, the report will be saved in the current working directory: ''
                         @ getcwd e))
                     (\<lambda>u. returns result)))))"

text \<open>Lines 196-206 as a step.\<close>

definition summarize_step ::
  "mode_result \<Rightarrow> (int \<rightharpoonup> pyfloat) \<Rightarrow> pyfloat list \<Rightarrow> (int \<rightharpoonup> pyfloat list) \<Rightarrow> mode_result step" where
  "summarize_step mode_dict per_state rms_list pairs =
     (case summarize mode_dict per_state rms_list pairs of
        Inl x \<Rightarrow> raises x
      | Inr m \<Rightarrow> returns m)"

text \<open>Lines 136-389.\<close>

definition analyse_with ::
  "faults \<Rightarrow> env \<Rightarrow> string \<Rightarrow> string \<Rightarrow> bool \<Rightarrow> int \<Rightarrow> bool \<Rightarrow> string \<Rightarrow> string
     \<Rightarrow> analysis_result \<Rightarrow> analysis_result step" where
  "analyse_with f e obj_to_fit sel quiet display_level export_report report_path base_selection result0 =
     (let sel_all = base_selection;
          sel_no_h = base_selection @ '' and (not hydro)'';
          n = states result0
      in and_then (try_count_atoms_with f e quiet sel_all) (\<lambda>natoms_all.
         and_then (try_count_atoms_with f e quiet sel_no_h) (\<lambda>natoms_no_h.
         and_then (compute_mode_with f e quiet n sel_all) (\<lambda>(per_all, all_rms_all, per_pairs_all).
         and_then (compute_mode_with f e quiet n sel_no_h) (\<lambda>(per_no_h, all_rms_no_h, per_pairs_no_h).
         (let result1 = result0\<lparr>atom_counts_all := natoms_all,
                                  atom_counts_no_hydrogen := natoms_no_h\<rparr>
          in and_then (summarize_step (mode_all result1) per_all all_rms_all per_pairs_all) (\<lambda>m_all.
             and_then (summarize_step (mode_no_hydrogen result1) per_no_h all_rms_no_h per_pairs_no_h)
               (\<lambda>m_no_h.
                 present_with f e obj_to_fit sel quiet display_level export_report report_path
                   base_selection (result1\<lparr>mode_all := m_all, mode_no_hydrogen := m_no_h\<rparr>)))))))))"

text \<open>The outcome of a step that ends the function.\<close>

definition finish :: "analysis_result step \<Rightarrow> outcome \<times> event list" where
  "finish m = (case m of (Inl x, ev) \<Rightarrow> (Raised x, ev) | (Inr r, ev) \<Rightarrow> (Returned r, ev))"

text \<open>Lines 95-389: what follows the validation of the display level.\<close>

definition run_with ::
  "faults \<Rightarrow> env \<Rightarrow> string \<Rightarrow> string \<Rightarrow> bool \<Rightarrow> int \<Rightarrow> bool \<Rightarrow> string \<Rightarrow> analysis_result step" where
  "run_with f e obj sel quiet display_level export_report report_path =
     (let base_selection = ''('' @ obj @ '') and ('' @ sel @ '')'';
          result = initial_result\<lparr>selection := Some base_selection\<rparr>
      in and_then (emit (CountStates obj)) (\<lambda>u.
           case count_states e obj of
             Inl exc \<Rightarrow>
               (let err = ''Failed to determine states for '' @ quoted obj @ '': '' @ exc
                in and_then (p_with f quiet err) (\<lambda>u. returns (result\<lparr>error := Some err\<rparr>)))
           | Inr n \<Rightarrow>
               analyse_with f e obj sel quiet display_level export_report report_path
                 base_selection (result\<lparr>states := n\<rparr>)))"

definition calculate_rms_stats_with ::
  "faults \<Rightarrow> env \<Rightarrow> string option \<Rightarrow> string \<Rightarrow> bool \<Rightarrow> int \<Rightarrow> bool \<Rightarrow> string
     \<Rightarrow> outcome \<times> event list" where
  "calculate_rms_stats_with f e obj_to_fit sel quiet display_level export_report report_path =
     (case obj_to_fit of
        None \<Rightarrow>
          (case p_with f quiet help_text of
             (Inl x, ev) \<Rightarrow> (Raised x, ev)
           | (Inr u, ev) \<Rightarrow> (Help help_text, ev))
      | Some obj \<Rightarrow>
          if display_level \<noteq> 0 \<and> display_level \<noteq> 1 \<and> display_level \<noteq> 2 then
            (Raised (ValueError ''display_level must be 0, 1, or 2''), [])
          else finish (run_with f e obj sel quiet display_level export_report report_path))"

section \<open>Derived notions and auxiliary facts\<close>

subsection \<open>The loop of \<^verbatim>\<open>compute_mode\<close> in closed form\<close>

lemma reals_of_ge0:
  "list_all ge0 xs \<Longrightarrow> \<exists>rs. reals_of xs = Some rs \<and> xs = map Fl rs \<and> list_all (\<lambda>r. 0 \<le> r) rs"
proof (induction xs)
  case Nil
  then show ?case by simp
next
  case (Cons x xs)
  then show ?case by (cases x) auto
qed

lemma reals_of_map_Fl: "reals_of (map Fl rs) = Some rs"
  by (induction rs) auto

text \<open>What one state contributes: the filtered values, none when the query raises.\<close>

definition state_pairs :: "env \<Rightarrow> string \<Rightarrow> int \<Rightarrow> pyfloat list" where
  "state_pairs e s i = (case intra_fit e s i of Inl exc \<Rightarrow> [] | Inr v \<Rightarrow> filter ge0 (normalize v))"

definition mean_or_nan :: "pyfloat list \<Rightarrow> pyfloat" where
  "mean_or_nan xs = (case statistics_mean xs of Inl x \<Rightarrow> NaN | Inr m \<Rightarrow> m)"

lemma list_all_ge0_state_pairs: "list_all ge0 (state_pairs e s i)"
  by (cases "intra_fit e s i") (simp_all add: state_pairs_def list_all_iff)

lemma statistics_mean_ge0:
  "list_all ge0 xs \<Longrightarrow> xs \<noteq> [] \<Longrightarrow> \<exists>r. statistics_mean xs = Inr (Fl r)"
  using reals_of_ge0 [of xs] by (auto simp: statistics_mean_def)

lemma statistics_stdev_ge0:
  "list_all ge0 xs \<Longrightarrow> 2 \<le> length xs \<Longrightarrow> \<exists>r. statistics_stdev xs = Inr (Fl r)"
  using reals_of_ge0 [of xs] by (auto simp: statistics_stdev_def Let_def)

lemma fst_compute_state:
  "fst (compute_state e q s i (M, A, P)) =
     Inr (M(i \<mapsto> mean_or_nan (state_pairs e s i)), A @ state_pairs e s i, P(i \<mapsto> state_pairs e s i))"
proof (cases "intra_fit e s i")
  case (Inl exc)
  then show ?thesis
    by (simp add: compute_state_def state_pairs_def mean_or_nan_def statistics_mean_def)
next
  case (Inr v)
  show ?thesis
  proof (cases "filter ge0 (normalize v) = []")
    case True
    with Inr show ?thesis
      by (simp add: compute_state_def state_pairs_def mean_or_nan_def statistics_mean_def)
  next
    case False
    have "list_all ge0 (filter ge0 (normalize v))" by (simp add: list_all_iff)
    from statistics_mean_ge0 [OF this False] obtain r
      where "statistics_mean (filter ge0 (normalize v)) = Inr (Fl r)" ..
    with Inr False show ?thesis
      by (simp add: compute_state_def state_pairs_def mean_or_nan_def Let_def)
  qed
qed

definition loop_means :: "env \<Rightarrow> string \<Rightarrow> int list \<Rightarrow> (int \<rightharpoonup> pyfloat) \<Rightarrow> (int \<rightharpoonup> pyfloat)" where
  "loop_means e s idxs M = (\<lambda>k. if k \<in> set idxs then Some (mean_or_nan (state_pairs e s k)) else M k)"

definition loop_pairs :: "env \<Rightarrow> string \<Rightarrow> int list \<Rightarrow> (int \<rightharpoonup> pyfloat list) \<Rightarrow> (int \<rightharpoonup> pyfloat list)" where
  "loop_pairs e s idxs P = (\<lambda>k. if k \<in> set idxs then Some (state_pairs e s k) else P k)"

lemma fst_compute_loop:
  "fst (compute_loop e q s idxs (M, A, P)) =
     Inr (loop_means e s idxs M, A @ concat (map (state_pairs e s) idxs), loop_pairs e s idxs P)"
proof (induction idxs arbitrary: M A P)
  case Nil
  then show ?case by (simp add: loop_means_def loop_pairs_def)
next
  case (Cons i idxs)
  obtain ev where cs: "compute_state e q s i (M, A, P) =
     (Inr (M(i \<mapsto> mean_or_nan (state_pairs e s i)), A @ state_pairs e s i, P(i \<mapsto> state_pairs e s i)), ev)"
    using fst_compute_state [of e q s i M A P] by (cases "compute_state e q s i (M, A, P)") simp
  have m: "loop_means e s idxs (M(i \<mapsto> mean_or_nan (state_pairs e s i))) = loop_means e s (i # idxs) M"
    by (auto simp: loop_means_def fun_eq_iff)
  have p: "loop_pairs e s idxs (P(i \<mapsto> state_pairs e s i)) = loop_pairs e s (i # idxs) P"
    by (auto simp: loop_pairs_def fun_eq_iff)
  obtain r ev' where cl: "compute_loop e q s idxs
      (M(i \<mapsto> mean_or_nan (state_pairs e s i)), A @ state_pairs e s i, P(i \<mapsto> state_pairs e s i)) = (r, ev')"
    by (cases "compute_loop e q s idxs
      (M(i \<mapsto> mean_or_nan (state_pairs e s i)), A @ state_pairs e s i, P(i \<mapsto> state_pairs e s i))") simp
  have "r = Inr (loop_means e s (i # idxs) M,
                 (A @ state_pairs e s i) @ concat (map (state_pairs e s) idxs),
                 loop_pairs e s (i # idxs) P)"
    using Cons.IH [of "M(i \<mapsto> mean_or_nan (state_pairs e s i))" "A @ state_pairs e s i"
                      "P(i \<mapsto> state_pairs e s i)"]
    unfolding cl m p by simp
  then show ?case
    by (simp add: cs cl)
qed

subsection \<open>The result in closed form\<close>

definition sd_or_nan :: "pyfloat list \<Rightarrow> pyfloat" where
  "sd_or_nan xs = (if 1 < length xs then (case statistics_stdev xs of Inl x \<Rightarrow> NaN | Inr v \<Rightarrow> v) else NaN)"

definition mode_final :: "env \<Rightarrow> string \<Rightarrow> int \<Rightarrow> mode_result" where
  "mode_final e s n =
     \<lparr>per_state_means = loop_means e s [1..n] Map.empty,
      per_state_pairs = loop_pairs e s [1..n] Map.empty,
      all_rms = concat (map (state_pairs e s) [1..n]),
      overall_mean = mean_or_nan (concat (map (state_pairs e s) [1..n])),
      overall_sd = sd_or_nan (concat (map (state_pairs e s) [1..n]))\<rparr>"

lemma list_all_ge0_concat: "list_all ge0 (concat (map (state_pairs e s) idxs))"
  by (induction idxs) (simp_all add: list_all_ge0_state_pairs)

lemma mean_or_nan_Nil: "mean_or_nan [] = NaN"
  by (simp add: mean_or_nan_def statistics_mean_def)

lemma summarize_ge0:
  assumes "list_all ge0 A"
  shows "summarize (d::mode_result) M A P =
     Inr \<lparr>per_state_means = M, per_state_pairs = P, all_rms = A,
          overall_mean = mean_or_nan A, overall_sd = sd_or_nan A\<rparr>"
proof (cases "A = []")
  case True
  then show ?thesis
    by (simp add: summarize_def mean_or_nan_Nil sd_or_nan_def)
next
  case False
  from statistics_mean_ge0 [OF assms False] obtain r where m: "statistics_mean A = Inr (Fl r)" ..
  show ?thesis
  proof (cases "1 < length A")
    case True
    then have "2 \<le> length A" by simp
    from statistics_stdev_ge0 [OF assms this] obtain v where "statistics_stdev A = Inr (Fl v)" ..
    with m False True show ?thesis
      by (simp add: summarize_def mean_or_nan_def sd_or_nan_def)
  next
    case F: False
    with m False show ?thesis
      by (simp add: summarize_def mean_or_nan_def sd_or_nan_def)
  qed
qed

lemma compute_mode_fst:
  "fst (compute_mode e q n s) =
     Inr (loop_means e s [1..n] Map.empty, concat (map (state_pairs e s) [1..n]),
          loop_pairs e s [1..n] Map.empty)"
  by (simp add: compute_mode_def fst_compute_loop)

text \<open>What \<^verbatim>\<open>present\<close> leaves alone.\<close>

lemma export_failed_fields:
  "mode_all (fst (export_failed q rp r exc)) = mode_all r"
  "mode_no_hydrogen (fst (export_failed q rp r exc)) = mode_no_hydrogen r"
  "states (fst (export_failed q rp r exc)) = states r"
  "selection (fst (export_failed q rp r exc)) = selection r"
  "atom_counts_all (fst (export_failed q rp r exc)) = atom_counts_all r"
  "atom_counts_no_hydrogen (fst (export_failed q rp r exc)) = atom_counts_no_hydrogen r"
  by (simp_all add: export_failed_def Let_def)

lemma export_report_file_fields:
  "mode_all (fst (export_report_file e q obj sel rp ls r)) = mode_all r"
  "mode_no_hydrogen (fst (export_report_file e q obj sel rp ls r)) = mode_no_hydrogen r"
  "states (fst (export_report_file e q obj sel rp ls r)) = states r"
  "selection (fst (export_report_file e q obj sel rp ls r)) = selection r"
  "atom_counts_all (fst (export_report_file e q obj sel rp ls r)) = atom_counts_all r"
  "atom_counts_no_hydrogen (fst (export_report_file e q obj sel rp ls r)) = atom_counts_no_hydrogen r"
  by (auto simp: export_report_file_def Let_def case_prod_beta export_failed_fields split: sum.splits)

lemma present_fields:
  "mode_all (fst (present e obj sel q dl ex rp base r)) = mode_all r"
  "mode_no_hydrogen (fst (present e obj sel q dl ex rp base r)) = mode_no_hydrogen r"
  "states (fst (present e obj sel q dl ex rp base r)) = states r"
  "selection (fst (present e obj sel q dl ex rp base r)) = selection r"
  "atom_counts_all (fst (present e obj sel q dl ex rp base r)) = atom_counts_all r"
  "atom_counts_no_hydrogen (fst (present e obj sel q dl ex rp base r)) = atom_counts_no_hydrogen r"
  by (simp_all add: present_def Let_def case_prod_beta export_report_file_fields)

text \<open>The record handed to \<^verbatim>\<open>present\<close> after a state count of \<open>n\<close>.\<close>

definition analysed :: "env \<Rightarrow> string \<Rightarrow> analysis_result \<Rightarrow> analysis_result" where
  "analysed e base r0 =
     r0\<lparr>atom_counts_all := (case count_atoms e base of Inl exc \<Rightarrow> None | Inr k \<Rightarrow> Some k),
        atom_counts_no_hydrogen :=
          (case count_atoms e (base @ '' and (not hydro)'') of Inl exc \<Rightarrow> None | Inr k \<Rightarrow> Some k),
        mode_all := mode_final e base (states r0),
        mode_no_hydrogen := mode_final e (base @ '' and (not hydro)'') (states r0)\<rparr>"

lemma fst_try_count_atoms:
  "fst (try_count_atoms e q s) = (case count_atoms e s of Inl exc \<Rightarrow> None | Inr k \<Rightarrow> Some k)"
  by (simp add: try_count_atoms_def split: sum.splits)

lemma fst_analyse:
  "fst (analyse e obj sel q dl ex rp base r0) =
     Returned (fst (present e obj sel q dl ex rp base (analysed e base r0)))"
proof -
  let ?h = "base @ '' and (not hydro)''"
  obtain a1 ev1 where c1: "try_count_atoms e q base = (a1, ev1)" by (cases "try_count_atoms e q base")
  obtain a2 ev2 where c2: "try_count_atoms e q ?h = (a2, ev2)" by (cases "try_count_atoms e q ?h")
  obtain ev3 where m1: "compute_mode e q (states r0) base =
     (Inr (loop_means e base [1..states r0] Map.empty, concat (map (state_pairs e base) [1..states r0]),
          loop_pairs e base [1..states r0] Map.empty), ev3)"
    using compute_mode_fst [of e q "states r0" base] by (cases "compute_mode e q (states r0) base") simp
  obtain ev4 where m2: "compute_mode e q (states r0) ?h =
     (Inr (loop_means e ?h [1..states r0] Map.empty, concat (map (state_pairs e ?h) [1..states r0]),
          loop_pairs e ?h [1..states r0] Map.empty), ev4)"
    using compute_mode_fst [of e q "states r0" ?h] by (cases "compute_mode e q (states r0) ?h") simp
  have a1: "a1 = (case count_atoms e base of Inl exc \<Rightarrow> None | Inr k \<Rightarrow> Some k)"
    using fst_try_count_atoms [of e q base] c1 by simp
  have a2: "a2 = (case count_atoms e ?h of Inl exc \<Rightarrow> None | Inr k \<Rightarrow> Some k)"
    using fst_try_count_atoms [of e q ?h] c2 by simp
  show ?thesis
    unfolding analyse_def Let_def c1 c2
    by (simp add: m1 m2 summarize_ge0 list_all_ge0_concat a1 a2 analysed_def mode_final_def
             case_prod_beta)
qed

text \<open>Lines 119 and 138: the two selection strings.\<close>

definition base_selection_of :: "string \<Rightarrow> string \<Rightarrow> string" where
  "base_selection_of obj sel = ''('' @ obj @ '') and ('' @ sel @ '')''"

definition no_h_of :: "string \<Rightarrow> string" where
  "no_h_of base = base @ '' and (not hydro)''"

lemma mode_final_nonpos: "n < 1 \<Longrightarrow> mode_final e s n = empty_mode"
  by (simp add: mode_final_def empty_mode_def loop_means_def loop_pairs_def mean_or_nan_Nil
                sd_or_nan_def)

lemma returned_modes:
  assumes "fst (calculate_rms_stats e obj sel q dl ex rp) = Returned r"
  shows "\<exists>o'. obj = Some o'
           \<and> mode_all r = mode_final e (base_selection_of o' sel) (states r)
           \<and> mode_no_hydrogen r = mode_final e (no_h_of (base_selection_of o' sel)) (states r)"
proof (cases obj)
  case None
  with assms show ?thesis by (simp add: calculate_rms_stats_def)
next
  case (Some o')
  show ?thesis
  proof (cases "count_states e o'")
    case (Inl exc)
    with assms Some have "r = initial_result\<lparr>selection := Some (base_selection_of o' sel),
        error := Some (''Failed to determine states for '' @ quoted o' @ '': '' @ exc)\<rparr>"
      by (auto simp: calculate_rms_stats_def Let_def base_selection_of_def split: if_splits)
    then show ?thesis
      using Some by (simp add: initial_result_def mode_final_nonpos)
  next
    case (Inr n)
    let ?b = "base_selection_of o' sel"
    let ?r0 = "initial_result\<lparr>selection := Some ?b, states := n\<rparr>"
    from assms Some Inr
    have "fst (analyse e o' sel q dl ex rp ?b ?r0) = Returned r"
      by (auto simp: calculate_rms_stats_def Let_def base_selection_of_def case_prod_beta
               split: if_splits)
    then have r: "r = fst (present e o' sel q dl ex rp ?b (analysed e ?b ?r0))"
      by (simp add: fst_analyse)
    show ?thesis
      using Some by (simp add: r present_fields analysed_def no_h_of_def)
  qed
qed

lemma mode_final_pairs:
  "per_state_pairs (mode_final e s n) k = (if 1 \<le> k \<and> k \<le> n then Some (state_pairs e s k) else None)"
  by (simp add: mode_final_def loop_pairs_def)


lemma mode_final_all_rms:
  "all_rms (mode_final e s n) = concat (map (\<lambda>k. the (per_state_pairs (mode_final e s n) k)) [1..n])"
proof -
  have eq: "map (\<lambda>k. the (per_state_pairs (mode_final e s n) k)) [1..n] = map (state_pairs e s) [1..n]"
    by (rule map_cong) (simp_all add: mode_final_pairs)
  show ?thesis unfolding eq by (simp add: mode_final_def)
qed

lemma dom_mode_final_pairs: "dom (per_state_pairs (mode_final e s n)) = {1..n}"
  by (auto simp: mode_final_pairs dom_def)

lemma length_concat_sum: "length (concat xss) = sum_list (map length xss)"
  by (induction xss) simp_all

lemma mean_or_nan_reals:
  "rs \<noteq> [] \<Longrightarrow> mean_or_nan (map Fl rs) = Fl (sum_list rs / real (length rs))"
  by (simp add: mean_or_nan_def statistics_mean_def reals_of_map_Fl)

lemma sd_or_nan_reals:
  "2 \<le> length rs \<Longrightarrow>
   sd_or_nan (map Fl rs) =
     Fl (sqrt (sum_list (map (\<lambda>x. (x - sum_list rs / real (length rs))\<^sup>2) rs) / (real (length rs) - 1)))"
  by (simp add: sd_or_nan_def statistics_stdev_def reals_of_map_Fl Let_def)

lemma sd_or_nan_short: "length xs < 2 \<Longrightarrow> sd_or_nan xs = NaN"
  by (simp add: sd_or_nan_def)

subsection \<open>A sample session\<close>

text \<open>
  Three states; the toolkit answers \<open>[1, 2]\<close>, \<open>[-1]\<close> and \<open>[3]\<close> in both modes, and
  fails to count the atoms of the selection without hydrogens.
\<close>

definition demo_env :: env where
  "demo_env =
     \<lparr>count_states = (\<lambda>obj. Inr 3),
      count_atoms = (\<lambda>s. if s = ''(1A1T) and (all)'' then Inr 20 else Inl ''no such selection''),
      intra_fit = (\<lambda>s i. if i = 1 then Inr (ReplySeq [Elem (Fl 1), Elem (Fl 2)])
                          else if i = 2 then Inr (ReplySeq [Elem (Fl (- 1))])
                          else if i = 3 then Inr (ReplySeq [Elem (Fl 3)])
                          else Inl ''no such state''),
      is_dir = (\<lambda>p. Inr True),
      now = \<lparr>year = 2025, month = 3, day = 9, hour = 14, minute = 5, second = 7\<rparr>,
      write_text = (\<lambda>p t. Inr ''/reports/out.txt''),
      getcwd = ''/home''\<rparr>"

definition demo_mode :: mode_result where
  "demo_mode =
     \<lparr>per_state_means = [1 \<mapsto> Fl (3 / 2), 2 \<mapsto> NaN, 3 \<mapsto> Fl 3],
      per_state_pairs = [1 \<mapsto> [Fl 1, Fl 2], 2 \<mapsto> [], 3 \<mapsto> [Fl 3]],
      all_rms = [Fl 1, Fl 2, Fl 3],
      overall_mean = Fl 2,
      overall_sd = Fl 1\<rparr>"

definition demo_result :: analysis_result where
  "demo_result =
     \<lparr>mode_all = demo_mode, mode_no_hydrogen = demo_mode,
      selection = Some ''(1A1T) and (all)'',
      atom_counts_all = Some 20, atom_counts_no_hydrogen = None, states = 3,
      report_file = None, error = None\<rparr>"

lemma upto_1_3: "[1..3] = [1, 2, 3::int]"
  by (simp add: upto.simps)

lemma demo_state_pairs:
  "state_pairs demo_env s 1 = [Fl 1, Fl 2]"
  "state_pairs demo_env s 2 = []"
  "state_pairs demo_env s 3 = [Fl 3]"
  by (simp_all add: state_pairs_def demo_env_def)

lemma demo_mode_final: "mode_final demo_env s 3 = demo_mode"
proof -
  have m: "loop_means demo_env s [1, 2, 3] Map.empty = [1 \<mapsto> Fl (3 / 2), 2 \<mapsto> NaN, 3 \<mapsto> Fl 3]"
    by (auto simp: loop_means_def fun_eq_iff demo_state_pairs mean_or_nan_def statistics_mean_def)
  have p: "loop_pairs demo_env s [1, 2, 3] Map.empty = [1 \<mapsto> [Fl 1, Fl 2], 2 \<mapsto> [], 3 \<mapsto> [Fl 3]]"
    by (auto simp: loop_pairs_def fun_eq_iff demo_state_pairs)
  have a: "mean_or_nan [Fl 1, Fl 2, Fl 3] = Fl 2"
    by (simp add: mean_or_nan_def statistics_mean_def)
  have sd: "sd_or_nan [Fl 1, Fl 2, Fl 3] = Fl 1"
    by (simp add: sd_or_nan_def statistics_stdev_def Let_def)
  show ?thesis
    by (simp add: mode_final_def upto_1_3 m p a sd demo_state_pairs demo_mode_def)
qed

lemma demo_env_simps:
  "count_states demo_env obj = Inr 3"
  "count_atoms demo_env s = (if s = ''(1A1T) and (all)'' then Inr 20 else Inl ''no such selection'')"
  "is_dir demo_env p = Inr True"
  "write_text demo_env fp t = Inr ''/reports/out.txt''"
  "getcwd demo_env = ''/home''"
  "now demo_env = \<lparr>year = 2025, month = 3, day = 9, hour = 14, minute = 5, second = 7\<rparr>"
  by (simp_all add: demo_env_def)

lemma demo_run:
  "fst (calculate_rms_stats demo_env (Some ''1A1T'') ''all'' True 1 False ''.'') = Returned demo_result"
proof -
  have "fst (calculate_rms_stats demo_env (Some ''1A1T'') ''all'' True 1 False ''.'')
      = fst (analyse demo_env ''1A1T'' ''all'' True 1 False ''.'' ''(1A1T) and (all)''
               (initial_result\<lparr>selection := Some ''(1A1T) and (all)'', states := 3\<rparr>))"
    by (simp add: calculate_rms_stats_def demo_env_simps case_prod_beta Let_def)
  also have "\<dots> = Returned (analysed demo_env ''(1A1T) and (all)''
               (initial_result\<lparr>selection := Some ''(1A1T) and (all)'', states := 3\<rparr>))"
    by (simp add: fst_analyse present_def Let_def)
  also have "\<dots> = Returned demo_result"
    by (simp add: analysed_def demo_mode_final initial_result_def demo_result_def demo_env_simps)
  finally show ?thesis .
qed



subsection \<open>The trace of a run\<close>

text \<open>A trace without its prints.\<close>

definition silent :: "event list \<Rightarrow> event list" where
  "silent ev = filter (\<lambda>x. \<not> is_print x) ev"

lemma silent_simps:
  "silent [] = []"
  "silent (Print s # ev) = silent ev"
  "silent (CountStates s # ev) = CountStates s # silent ev"
  "silent (CountAtoms s # ev) = CountAtoms s # silent ev"
  "silent (IntraFit s i # ev) = IntraFit s i # silent ev"
  "silent (IsDir s # ev) = IsDir s # silent ev"
  "silent (Now # ev) = Now # silent ev"
  "silent (WriteText p t # ev) = WriteText p t # silent ev"
  "silent (ev @ ev') = silent ev @ silent ev'"
  by (simp_all add: silent_def)

lemma silent_underscore_p: "silent (underscore_p q s) = []"
  by (simp add: underscore_p_def silent_simps)

lemma silent_print_lines: "silent (concat (map (underscore_p q) ls)) = []"
  by (induction ls) (simp_all add: silent_simps silent_underscore_p)

lemma underscore_p_quiet: "underscore_p True s = []"
  by (simp add: underscore_p_def)

lemma print_lines_quiet: "concat (map (underscore_p True) ls) = []"
  by (induction ls) (simp_all add: underscore_p_quiet)

lemma silent_compute_state: "silent (snd (compute_state e q s i acc)) = [IntraFit s i]"
proof (cases acc)
  case (fields M A P)
  show ?thesis
  proof (cases "intra_fit e s i")
    case (Inl exc)
    then show ?thesis
      by (simp add: fields compute_state_def silent_simps silent_underscore_p)
  next
    case (Inr v)
    then show ?thesis
      by (simp add: fields compute_state_def Let_def silent_simps split: sum.splits)
  qed
qed

lemma silent_compute_loop: "silent (snd (compute_loop e q s idxs acc)) = map (IntraFit s) idxs"
proof (induction idxs arbitrary: acc)
  case Nil
  then show ?case by (simp add: silent_simps)
next
  case (Cons i idxs)
  obtain M A P where acc: "acc = (M, A, P)" by (cases acc)
  obtain acc' ev where cs: "compute_state e q s i acc = (Inr acc', ev)"
    using fst_compute_state [of e q s i M A P] unfolding acc
    by (cases "compute_state e q s i (M, A, P)") simp
  have ev: "silent ev = [IntraFit s i]"
    using silent_compute_state [of e q s i acc] by (simp add: cs)
  show ?case
    using Cons.IH [of acc'] by (simp add: cs case_prod_beta silent_simps ev)
qed

lemma silent_compute_mode: "silent (snd (compute_mode e q n s)) = map (IntraFit s) [1..n]"
  by (simp add: compute_mode_def silent_compute_loop)

lemma silent_try_count_atoms: "silent (snd (try_count_atoms e q s)) = [CountAtoms s]"
  by (simp add: try_count_atoms_def silent_simps silent_underscore_p split: sum.splits)

text \<open>The events of the export block that are not prints.\<close>

definition export_events :: "env \<Rightarrow> string \<Rightarrow> string \<Rightarrow> string \<Rightarrow> string list \<Rightarrow> event list" where
  "export_events e obj sel rp ls =
     (case is_dir e rp of
        Inl exc \<Rightarrow> [IsDir rp]
      | Inr dir \<Rightarrow>
          (if dir then [IsDir rp, Now, WriteText (InDir rp (report_filename obj sel (now e)))
                                               (join newline ls @ newline)]
           else [IsDir rp, WriteText (Literal rp) (join newline ls @ newline)]))"

lemma silent_export_failed: "silent (snd (export_failed q rp r exc)) = []"
  by (simp add: export_failed_def Let_def silent_underscore_p)

lemma fst_export_failed: "fst (export_failed q rp r exc) = fst (export_failed q' rp r exc)"
  by (simp add: export_failed_def Let_def)

lemma silent_export_report_file:
  "silent (snd (export_report_file e q obj sel rp ls r)) = export_events e obj sel rp ls"
  by (simp add: export_report_file_def export_events_def Let_def case_prod_beta silent_simps
                silent_export_failed silent_underscore_p split: sum.splits)

lemma fst_export_report_file:
  "fst (export_report_file e q obj sel rp ls r) = fst (export_report_file e q' obj sel rp ls r)"
  using fst_export_failed [of q rp r _ q']
  by (simp add: export_report_file_def Let_def case_prod_beta split: sum.splits)

lemma silent_present:
  "silent (snd (present e obj sel q dl ex rp base r)) =
     (if ex then export_events e obj sel rp (format_report_lines dl sel base r) else [])"
  by (simp add: present_def Let_def case_prod_beta silent_simps silent_print_lines
                silent_export_report_file silent_underscore_p)

lemma fst_present:
  "fst (present e obj sel q dl ex rp base r) = fst (present e obj sel q' dl ex rp base r)"
  using fst_export_report_file [of e q obj sel rp _ r q']
  by (simp add: present_def Let_def case_prod_beta)

lemma snd_analyse:
  "snd (analyse e obj sel q dl ex rp base r0) =
     snd (try_count_atoms e q base) @ snd (try_count_atoms e q (no_h_of base))
       @ snd (compute_mode e q (states r0) base) @ snd (compute_mode e q (states r0) (no_h_of base))
       @ snd (present e obj sel q dl ex rp base (analysed e base r0))"
proof -
  let ?h = "base @ '' and (not hydro)''"
  obtain a1 ev1 where c1: "try_count_atoms e q base = (a1, ev1)" by (cases "try_count_atoms e q base")
  obtain a2 ev2 where c2: "try_count_atoms e q ?h = (a2, ev2)" by (cases "try_count_atoms e q ?h")
  obtain ev3 where m1: "compute_mode e q (states r0) base =
     (Inr (loop_means e base [1..states r0] Map.empty, concat (map (state_pairs e base) [1..states r0]),
          loop_pairs e base [1..states r0] Map.empty), ev3)"
    using compute_mode_fst [of e q "states r0" base] by (cases "compute_mode e q (states r0) base") simp
  obtain ev4 where m2: "compute_mode e q (states r0) ?h =
     (Inr (loop_means e ?h [1..states r0] Map.empty, concat (map (state_pairs e ?h) [1..states r0]),
          loop_pairs e ?h [1..states r0] Map.empty), ev4)"
    using compute_mode_fst [of e q "states r0" ?h] by (cases "compute_mode e q (states r0) ?h") simp
  have a1: "a1 = (case count_atoms e base of Inl exc \<Rightarrow> None | Inr k \<Rightarrow> Some k)"
    using fst_try_count_atoms [of e q base] c1 by simp
  have a2: "a2 = (case count_atoms e ?h of Inl exc \<Rightarrow> None | Inr k \<Rightarrow> Some k)"
    using fst_try_count_atoms [of e q ?h] c2 by simp
  show ?thesis
    unfolding analyse_def Let_def c1 c2 no_h_of_def
    by (simp add: m1 m2 summarize_ge0 list_all_ge0_concat a1 a2 analysed_def mode_final_def
             case_prod_beta)
qed

lemma snd_compute_state_quiet: "snd (compute_state e True s i acc) = [IntraFit s i]"
proof (cases acc)
  case (fields M A P)
  show ?thesis
    by (cases "intra_fit e s i")
       (simp_all add: fields compute_state_def Let_def underscore_p_quiet split: sum.splits)
qed

lemma snd_compute_loop_quiet: "snd (compute_loop e True s idxs acc) = map (IntraFit s) idxs"
proof (induction idxs arbitrary: acc)
  case Nil
  then show ?case by simp
next
  case (Cons i idxs)
  obtain M A P where acc: "acc = (M, A, P)" by (cases acc)
  obtain acc' ev where cs: "compute_state e True s i acc = (Inr acc', ev)"
    using fst_compute_state [of e True s i M A P] unfolding acc
    by (cases "compute_state e True s i (M, A, P)") simp
  have ev: "ev = [IntraFit s i]"
    using snd_compute_state_quiet [of e s i acc] by (simp add: cs)
  show ?case
    using Cons.IH [of acc'] by (simp add: cs case_prod_beta ev)
qed

lemma snd_compute_mode_quiet: "snd (compute_mode e True n s) = map (IntraFit s) [1..n]"
  by (simp add: compute_mode_def snd_compute_loop_quiet)

lemma snd_try_count_atoms_quiet: "snd (try_count_atoms e True s) = [CountAtoms s]"
  by (simp add: try_count_atoms_def underscore_p_quiet split: sum.splits)

lemma snd_export_report_file_quiet:
  "snd (export_report_file e True obj sel rp ls r) = export_events e obj sel rp ls"
  by (simp add: export_report_file_def export_events_def export_failed_def Let_def case_prod_beta
                underscore_p_quiet split: sum.splits)

lemma snd_present_quiet:
  "snd (present e obj sel True dl ex rp base r) =
     (if ex then export_events e obj sel rp (format_report_lines dl sel base r) else [])"
  by (simp add: present_def Let_def case_prod_beta print_lines_quiet snd_export_report_file_quiet
                underscore_p_quiet)

text \<open>The calls a run makes, in order, prints left out.\<close>

definition run_events :: "env \<Rightarrow> string option \<Rightarrow> string \<Rightarrow> int \<Rightarrow> bool \<Rightarrow> string \<Rightarrow> event list" where
  "run_events e obj_to_fit sel dl ex rp =
     (case obj_to_fit of
        None \<Rightarrow> []
      | Some obj \<Rightarrow>
          if dl \<noteq> 0 \<and> dl \<noteq> 1 \<and> dl \<noteq> 2 then []
          else
            (case count_states e obj of
               Inl exc \<Rightarrow> [CountStates obj]
             | Inr n \<Rightarrow>
                 (let base = base_selection_of obj sel
                  in CountStates obj # CountAtoms base # CountAtoms (no_h_of base)
                       # map (IntraFit base) [1..n] @ map (IntraFit (no_h_of base)) [1..n]
                       @ (if ex then
                            export_events e obj sel rp
                              (format_report_lines dl sel base
                                 (analysed e base
                                    (initial_result\<lparr>selection := Some base, states := n\<rparr>)))
                          else []))))"

lemma silent_run:
  "silent (snd (calculate_rms_stats e obj sel q dl ex rp)) = run_events e obj sel dl ex rp"
proof (cases obj)
  case None
  then show ?thesis
    by (simp add: calculate_rms_stats_def run_events_def silent_simps)
next
  case (Some o')
  show ?thesis
  proof (cases "count_states e o'")
    case (Inl exc)
    then show ?thesis
      by (simp add: Some calculate_rms_stats_def run_events_def Let_def silent_simps
                    silent_underscore_p)
  next
    case (Inr n)
    then show ?thesis
      by (simp add: Some calculate_rms_stats_def run_events_def Let_def silent_simps case_prod_beta
                    snd_analyse silent_try_count_atoms silent_compute_mode silent_present
                    base_selection_of_def)
  qed
qed

lemma snd_run_quiet:
  "snd (calculate_rms_stats e obj sel True dl ex rp) = run_events e obj sel dl ex rp"
proof (cases obj)
  case None
  then show ?thesis
    by (simp add: calculate_rms_stats_def run_events_def)
next
  case (Some o')
  show ?thesis
  proof (cases "count_states e o'")
    case (Inl exc)
    then show ?thesis
      by (simp add: Some calculate_rms_stats_def run_events_def Let_def underscore_p_quiet)
  next
    case (Inr n)
    then show ?thesis
      by (simp add: Some calculate_rms_stats_def run_events_def Let_def case_prod_beta
                    snd_analyse snd_try_count_atoms_quiet snd_compute_mode_quiet snd_present_quiet
                    base_selection_of_def)
  qed
qed

lemma fst_run:
  "fst (calculate_rms_stats e obj sel q dl ex rp) = fst (calculate_rms_stats e obj sel q' dl ex rp)"
proof (cases obj)
  case None
  then show ?thesis by (simp add: calculate_rms_stats_def)
next
  case (Some o')
  show ?thesis
    using fst_present [of e o' sel q _ ex rp _ _ q']
    by (cases "count_states e o'")
       (simp_all add: Some calculate_rms_stats_def Let_def case_prod_beta fst_analyse)
qed

lemma no_print_silent: "filter is_print (silent ev) = []"
  by (induction ev) (simp_all add: silent_def)

fun is_raised :: "outcome \<Rightarrow> bool" where
  "is_raised (Raised x) = True"
| "is_raised out = False"






subsection \<open>Negative values\<close>

text \<open>A value strictly below zero.\<close>

fun negative :: "pyfloat \<Rightarrow> bool" where
  "negative (Fl r) = (r < 0)"
| "negative NaN = False"

fun negative_elem :: "pyelem \<Rightarrow> bool" where
  "negative_elem (Elem x) = negative x"
| "negative_elem NotFloat = False"

text \<open>A reply of the toolkit with its negative values taken out.\<close>

fun drop_negative :: "rms_reply \<Rightarrow> rms_reply" where
  "drop_negative ReplyNone = ReplyNone"
| "drop_negative (ReplyScalar x) = (if negative x then ReplySeq [] else ReplyScalar x)"
| "drop_negative (ReplySeq es) = ReplySeq (filter (\<lambda>x. \<not> negative_elem x) es)"
| "drop_negative ReplyOther = ReplyOther"

definition without_negatives :: "env \<Rightarrow> env" where
  "without_negatives e =
     e\<lparr>intra_fit := (\<lambda>s i. case intra_fit e s i of Inl exc \<Rightarrow> Inl exc
                                                 | Inr v \<Rightarrow> Inr (drop_negative v))\<rparr>"

lemma negative_not_ge0: "negative x \<Longrightarrow> \<not> ge0 x"
  by (cases x) simp_all

lemma ge0_not_negative: "ge0 x \<Longrightarrow> \<not> negative x"
  by (cases x) simp_all

lemma list_all_is_elem_drop:
  "list_all is_elem (filter (\<lambda>x. \<not> negative_elem x) es) = list_all is_elem es"
proof (induction es)
  case Nil
  then show ?case by simp
next
  case (Cons x es)
  then show ?case by (cases x) simp_all
qed

lemma filter_ge0_drop:
  "filter ge0 (map elem_float (filter (\<lambda>x. \<not> negative_elem x) es)) = filter ge0 (map elem_float es)"
proof (induction es)
  case Nil
  then show ?case by simp
next
  case (Cons x es)
  then show ?case by (cases x) (simp_all add: negative_not_ge0)
qed

lemma filter_normalize_drop_negative:
  "filter ge0 (normalize (drop_negative v)) = filter ge0 (normalize v)"
proof (cases v)
  case (ReplyScalar x)
  then show ?thesis by (simp add: negative_not_ge0)
next
  case (ReplySeq es)
  then show ?thesis by (simp add: list_all_is_elem_drop filter_ge0_drop)
qed simp_all

lemma without_negatives_fields:
  "count_states (without_negatives e) = count_states e"
  "count_atoms (without_negatives e) = count_atoms e"
  "is_dir (without_negatives e) = is_dir e"
  "now (without_negatives e) = now e"
  "write_text (without_negatives e) = write_text e"
  "getcwd (without_negatives e) = getcwd e"
  by (simp_all add: without_negatives_def)

lemma compute_state_without_negatives:
  "compute_state (without_negatives e) q s i acc = compute_state e q s i acc"
proof (cases "intra_fit e s i")
  case (Inl exc)
  then show ?thesis by (simp add: compute_state_def without_negatives_def)
next
  case (Inr v)
  then show ?thesis
    by (simp add: compute_state_def without_negatives_def filter_normalize_drop_negative)
qed

lemma compute_loop_without_negatives:
  "compute_loop (without_negatives e) q s idxs acc = compute_loop e q s idxs acc"
  by (induction idxs arbitrary: acc)
     (simp_all add: compute_state_without_negatives
               cong del: prod.case_cong_weak sum.case_cong_weak)

lemma compute_mode_without_negatives:
  "compute_mode (without_negatives e) q n s = compute_mode e q n s"
  by (simp add: compute_mode_def compute_loop_without_negatives)

lemma try_count_atoms_without_negatives:
  "try_count_atoms (without_negatives e) q s = try_count_atoms e q s"
  by (simp add: try_count_atoms_def without_negatives_fields)

lemma export_report_file_without_negatives:
  "export_report_file (without_negatives e) q obj sel rp ls r = export_report_file e q obj sel rp ls r"
  unfolding export_report_file_def
  by (simp only: without_negatives_fields)

lemma present_without_negatives:
  "present (without_negatives e) obj sel q dl ex rp base r = present e obj sel q dl ex rp base r"
  unfolding present_def
  by (simp only: export_report_file_without_negatives without_negatives_fields)

lemma analyse_without_negatives:
  "analyse (without_negatives e) obj sel q dl ex rp base r0 = analyse e obj sel q dl ex rp base r0"
  unfolding analyse_def
  by (simp only: compute_mode_without_negatives try_count_atoms_without_negatives
                 present_without_negatives)

lemma run_without_negatives:
  "calculate_rms_stats (without_negatives e) obj sel q dl ex rp = calculate_rms_stats e obj sel q dl ex rp"
  unfolding calculate_rms_stats_def
  by (simp only: analyse_without_negatives without_negatives_fields)

lemma state_pairs_not_negative: "list_all (\<lambda>x. \<not> negative x) (state_pairs e s i)"
  using list_all_ge0_state_pairs [of e s i] by (auto simp: list_all_iff ge0_not_negative)

lemma concat_not_negative: "list_all (\<lambda>x. \<not> negative x) (concat (map (state_pairs e s) idxs))"
  by (induction idxs) (simp_all add: state_pairs_not_negative)

text \<open>The sample session with the pair lists \<open>[1, 2]\<close>, \<open>[]\<close> and \<open>[3]\<close>.\<close>

definition example_env :: env where
  "example_env =
     demo_env\<lparr>intra_fit := (\<lambda>s i. if i = 1 then Inr (ReplySeq [Elem (Fl 1), Elem (Fl 2)])
                                    else if i = 2 then Inr (ReplySeq [])
                                    else Inr (ReplySeq [Elem (Fl 3)]))\<rparr>"

subsection \<open>The name of the exported file\<close>

text \<open>Runs of underscores made single: an underscore that follows an underscore goes.\<close>

fun squeeze_underscores :: "string \<Rightarrow> string" where
  "squeeze_underscores (a # b # rest) =
     (if a = CHR ''_'' \<and> b = CHR ''_'' then squeeze_underscores (b # rest)
      else a # squeeze_underscores (b # rest))"
| "squeeze_underscores s = s"

lemma squeeze_no_dd: "\<not> has_dd s \<Longrightarrow> squeeze_underscores s = s"
  by (induction s rule: squeeze_underscores.induct) auto

lemma squeeze_Nil_iff: "squeeze_underscores s = [] \<longleftrightarrow> s = []"
  by (induction s rule: squeeze_underscores.induct) auto

lemma hd_squeeze: "hd (squeeze_underscores s) = hd s"
  by (induction s rule: squeeze_underscores.induct) auto

lemma replace_dd_Nil_iff: "replace_dd s = [] \<longleftrightarrow> s = []"
  by (induction s rule: replace_dd.induct) auto

lemma hd_replace_dd: "hd (replace_dd s) = hd s"
  by (induction s rule: replace_dd.induct) auto

lemma squeeze_Cons:
  "squeeze_underscores (c # s) =
     (if s \<noteq> [] \<and> c = CHR ''_'' \<and> hd s = CHR ''_'' then squeeze_underscores s
      else c # squeeze_underscores s)"
  by (cases s) auto

lemma squeeze_Cons_cong:
  assumes "squeeze_underscores s = squeeze_underscores t" and "hd s = hd t" and "s = [] \<longleftrightarrow> t = []"
  shows "squeeze_underscores (c # s) = squeeze_underscores (c # t)"
  using assms by (simp add: squeeze_Cons)

lemma squeeze_replace_dd: "squeeze_underscores (replace_dd s) = squeeze_underscores s"
proof (induction s rule: replace_dd.induct)
  case (1 a b rest)
  show ?case
  proof (cases "a = CHR ''_'' \<and> b = CHR ''_''")
    case True
    with 1 have ih: "squeeze_underscores (replace_dd rest) = squeeze_underscores rest" by simp
    have "squeeze_underscores (CHR ''_'' # replace_dd rest) = squeeze_underscores (CHR ''_'' # rest)"
      by (rule squeeze_Cons_cong [OF ih hd_replace_dd replace_dd_Nil_iff])
    with True show ?thesis by simp
  next
    case False
    with 1 have ih: "squeeze_underscores (replace_dd (b # rest)) = squeeze_underscores (b # rest)"
      by simp
    have r: "replace_dd (a # b # rest) = a # replace_dd (b # rest)"
      using False by auto
    show ?thesis
      unfolding r by (rule squeeze_Cons_cong [OF ih hd_replace_dd replace_dd_Nil_iff])
  qed
qed simp_all

lemma collapse_is_squeeze: "collapse_underscores s = squeeze_underscores s"
proof (induction s rule: collapse_underscores.induct)
  case (1 s)
  show ?case
  proof (cases "has_dd s")
    case True
    with 1 show ?thesis
      by (simp add: collapse_underscores.simps [of s] squeeze_replace_dd)
  next
    case False
    then show ?thesis
      by (simp add: collapse_underscores.simps [of s] squeeze_no_dd)
  qed
qed

text \<open>The class \<open>[A-Za-z0-9_-]\<close>, by code points.\<close>

definition ascii_name_char :: "char \<Rightarrow> bool" where
  "ascii_name_char c =
     (let n = code_point c
      in (48 \<le> n \<and> n \<le> 57) \<or> (65 \<le> n \<and> n \<le> 90) \<or> (97 \<le> n \<and> n \<le> 122)
         \<or> n = 95 \<or> n = 45)"

text \<open>The characters the code keeps: \<^verbatim>\<open>c.isalnum() or c in ("-", "_")\<close>.\<close>

definition kept_char :: "char \<Rightarrow> bool" where
  "kept_char c = (py_isalnum c \<or> c = CHR ''-'' \<or> c = CHR ''_'')"

definition replace_outside :: "(char \<Rightarrow> bool) \<Rightarrow> string \<Rightarrow> string" where
  "replace_outside K s = map (\<lambda>c. if K c then c else CHR ''_'') s"

text \<open>A selection that is not empty, not blank and not \<^verbatim>\<open>all\<close> in any case.\<close>

definition nontrivial_selection :: "string \<Rightarrow> bool" where
  "nontrivial_selection sel =
     (sel \<noteq> [] \<and> \<not> list_all py_isspace sel \<and> lower (strip sel) \<noteq> ''all'')"

text \<open>
  The file name as the specification words it, for a class \<open>K\<close> of characters to keep and a
  time stamp.
\<close>

definition spec_filename :: "(char \<Rightarrow> bool) \<Rightarrow> string \<Rightarrow> string \<Rightarrow> string \<Rightarrow> string" where
  "spec_filename K obj sel stamp =
     ''rms_report_'' @ take 30 (replace_outside K obj)
       @ (if nontrivial_selection sel then
            ''_sel_''
              @ take 40 (strip_chars (\<lambda>c. c = CHR ''_'') (squeeze_underscores (replace_outside K sel)))
          else [])
       @ ''_'' @ stamp @ ''.txt''"

definition is_digit :: "char \<Rightarrow> bool" where
  "is_digit c = (48 \<le> code_point c \<and> code_point c \<le> 57)"

text \<open>The shape \<^verbatim>\<open>YYYYMMDD_HHMMSS\<close>.\<close>

definition is_timestamp :: "string \<Rightarrow> bool" where
  "is_timestamp t =
     (length t = 15 \<and> list_all is_digit (take 8 t) \<and> t ! 8 = CHR ''_''
      \<and> list_all is_digit (drop 9 t))"

text \<open>The ranges the class \<^verbatim>\<open>datetime\<close> keeps its fields in.\<close>

definition valid_datetime :: "datetime \<Rightarrow> bool" where
  "valid_datetime d =
     (1 \<le> year d \<and> year d \<le> 9999 \<and> 1 \<le> month d \<and> month d \<le> 12 \<and> 1 \<le> day d \<and> day d \<le> 31
      \<and> hour d < 24 \<and> minute d < 60 \<and> second d < 60)"

fun is_write :: "event \<Rightarrow> bool" where
  "is_write (WriteText p t) = True"
| "is_write ev = False"

lemma is_digit_digit_char: "is_digit (digit_char d)"
  by (simp add: is_digit_def digit_char_def code_point_def)

lemma digits_str_nat: "list_all is_digit (str_nat n)"
proof (induction n rule: str_nat.induct)
  case (1 n)
  then show ?case
    by (cases "n < 10") (simp_all add: str_nat.simps [of n] is_digit_digit_char)
qed

lemma length_str_nat: "n < 10 ^ k \<Longrightarrow> 0 < k \<Longrightarrow> length (str_nat n) \<le> k"
proof (induction n arbitrary: k rule: str_nat.induct)
  case (1 n)
  show ?case
  proof (cases "n < 10")
    case True
    with 1(3) show ?thesis by (simp add: str_nat.simps [of n])
  next
    case False
    obtain j where k: "k = Suc j" using 1(3) by (cases k) auto
    have j: "0 < j"
    proof (rule ccontr)
      assume "\<not> 0 < j"
      with k 1(2) False show False by simp
    qed
    have "n div 10 < 10 ^ j" using 1(2) k by (simp add: less_mult_imp_div_less mult.commute)
    from 1(1) [OF False this j] k False show ?thesis
      by (simp add: str_nat.simps [of n])
  qed
qed

lemma length_zfill: "length s \<le> w \<Longrightarrow> length (zfill w s) = w"
  by (simp add: zfill_def)

lemma digits_zfill: "list_all is_digit s \<Longrightarrow> list_all is_digit (zfill w s)"
  by (auto simp: zfill_def list_all_iff is_digit_def code_point_def)

lemma field2: "n < 100 \<Longrightarrow> length (zfill 2 (str_nat n)) = 2 \<and> list_all is_digit (zfill 2 (str_nat n))"
  using length_str_nat [of n 2] by (simp add: length_zfill digits_zfill digits_str_nat)

lemma field4: "n < 10000 \<Longrightarrow> length (zfill 4 (str_nat n)) = 4 \<and> list_all is_digit (zfill 4 (str_nat n))"
  using length_str_nat [of n 4] by (simp add: length_zfill digits_zfill digits_str_nat)

lemma strftime_shape: "valid_datetime d \<Longrightarrow> is_timestamp (strftime d)"
proof -
  assume v: "valid_datetime d"
  then have y: "length (zfill 4 (str_nat (year d))) = 4 \<and> list_all is_digit (zfill 4 (str_nat (year d)))"
    and mo: "length (zfill 2 (str_nat (month d))) = 2 \<and> list_all is_digit (zfill 2 (str_nat (month d)))"
    and da: "length (zfill 2 (str_nat (day d))) = 2 \<and> list_all is_digit (zfill 2 (str_nat (day d)))"
    and h: "length (zfill 2 (str_nat (hour d))) = 2 \<and> list_all is_digit (zfill 2 (str_nat (hour d)))"
    and mi: "length (zfill 2 (str_nat (minute d))) = 2 \<and> list_all is_digit (zfill 2 (str_nat (minute d)))"
    and s: "length (zfill 2 (str_nat (second d))) = 2 \<and> list_all is_digit (zfill 2 (str_nat (second d)))"
    by (simp_all add: valid_datetime_def field2 field4)
  show ?thesis
    using y mo da h mi s
    by (simp add: is_timestamp_def strftime_def nth_append)
qed

lemma strip_chars_Nil_iff: "strip_chars P s = [] \<longleftrightarrow> list_all P s"
proof
  assume "strip_chars P s = []"
  then have a: "\<forall>x\<in>set (dropWhile P s). P x"
    by (simp add: strip_chars_def)
  have "dropWhile P s = []"
  proof (rule ccontr)
    assume n: "dropWhile P s \<noteq> []"
    then have "\<not> P (hd (dropWhile P s))" by (rule hd_dropWhile)
    moreover have "hd (dropWhile P s) \<in> set (dropWhile P s)" using n by simp
    ultimately show False using a by blast
  qed
  then show "list_all P s" by (simp add: list_all_iff)
next
  assume "list_all P s"
  then have d: "dropWhile P s = []" by (simp add: list_all_iff)
  show "strip_chars P s = []" unfolding strip_chars_def d by simp
qed

lemma nontrivial_selection_code:
  "(strip sel \<noteq> [] \<and> lower (strip sel) \<noteq> ''all'') = nontrivial_selection sel"
  by (auto simp: nontrivial_selection_def strip_def strip_chars_Nil_iff)

lemma map_safe_char: "map safe_char s = replace_outside kept_char s"
  by (simp add: replace_outside_def safe_char_def kept_char_def)

lemma report_filename_spec:
  "report_filename obj sel d = spec_filename kept_char obj sel (strftime d)"
  by (simp add: report_filename_def spec_filename_def Let_def map_safe_char collapse_is_squeeze
                nontrivial_selection_code)

lemma code_point_eq: "code_point c = code_point c' \<longleftrightarrow> c = c'"
  by (simp add: code_point_def)

lemma kept_char_ascii: "code_point c < 128 \<Longrightarrow> kept_char c = ascii_name_char c"
proof -
  assume a: "code_point c < 128"
  have h: "c = CHR ''-'' \<longleftrightarrow> code_point c = 45"
    using code_point_eq [of c "CHR ''-''"] by (simp add: code_point_def)
  have u: "c = CHR ''_'' \<longleftrightarrow> code_point c = 95"
    using code_point_eq [of c "CHR ''_''"] by (simp add: code_point_def)
  show ?thesis
    using a unfolding kept_char_def ascii_name_char_def py_isalnum_def Let_def h u by auto
qed

lemma writes_silent: "filter is_write (silent ev) = filter is_write ev"
proof (induction ev)
  case Nil
  then show ?case by (simp add: silent_def)
next
  case (Cons x ev)
  then show ?case by (cases x) (simp_all add: silent_def)
qed

lemma writes_intra_fit: "filter is_write (map (IntraFit s) idxs) = []"
  by (induction idxs) simp_all

lemma demo_stamp: "strftime (now demo_env) = ''20250309_140507''"
  by code_simp

lemma demo_name_plain: "report_filename ''1A1T'' ''all'' (now demo_env) = ''rms_report_1A1T_20250309_140507.txt''"
  by code_simp

lemma demo_name_sel:
  "report_filename ''1A1T'' ''chain A'' (now demo_env) = ''rms_report_1A1T_sel_chain_A_20250309_140507.txt''"
  by code_simp

subsection \<open>The blocks of the report\<close>

definition report_head :: "string list" where
  "report_head =
     [[], ''*****************************'', ''* RMS Statistics Calculator *'',
      ''*****************************'', []]"

definition level_line :: "int \<Rightarrow> string" where
  "level_line dl = ''The level of detail in this report has been set to => '' @ display_level_str dl"

text \<open>The selection block and the summary table, the same at every level.\<close>

definition report_core :: "string \<Rightarrow> string \<Rightarrow> analysis_result \<Rightarrow> string list" where
  "report_core sel base_selection result =
     [[], ''############ Data selection ############'']
     @ (if \<not> selection_provided sel then
          [''Note: no explicit selection was provided, so the script selected all atoms in the object.'',
           ''If you want a subset (for example only chain A), pass a selection string via the 'selection' argument, e.g.: selection='chain A'' @ [CHR 0x27],
           ''It is not necessary to explicitely exlude hydrogen atoms. RMS statistics are calculated both including and excluding hydrogens automatically.'',
           []]
        else [])
     @ [[],
        ''xxxxxxxxxxxxxxxxxxxxxxxxxxxxxxxxxxxxxxxx'',
        ''Resolved selection: '' @ base_selection,
        ''States inspected: '' @ str_int (states result),
        ''Atoms selected:'',
        ''  All: '' @ natoms_str (atom_counts_all result),
        ''  Heavy (no H): '' @ natoms_str (atom_counts_no_hydrogen result),
        ''xxxxxxxxxxxxxxxxxxxxxxxxxxxxxxxxxxxxxxxx'',
        [],
        ''########################################'',
        [],
        ''======================== RMS Summary ========================'',
        ljust 16 ''Mode'' @ '' '' @ rjust 7 ''#atoms'' @ '' '' @ rjust 9 ''#values'' @ '' ''
          @ rjust 10 ''mean'' @ '' '' @ rjust 10 ''sd'',
        dashes 60,
        summary_row ''All atoms'' (atom_counts_all result) (mode_all result),
        summary_row ''Heavy atoms'' (atom_counts_no_hydrogen result) (mode_no_hydrogen result),
        dashes 60]"

text \<open>A per-state table: its header, a rule and one row for each state.\<close>

definition state_table :: "mode_result \<Rightarrow> int \<Rightarrow> string list" where
  "state_table m n = state_table_header # dashes 34 # map (state_row m) [1..n]"

definition per_state_block :: "analysis_result \<Rightarrow> string list" where
  "per_state_block result =
     [''Average RMS per state (showing NaN where unavailable):'', [], ''All atoms:'']
     @ state_table (mode_all result) (states result)
     @ [[], ''Heavy atoms (no H):'']
     @ state_table (mode_no_hydrogen result) (states result)
     @ [dashes 60]"

definition detail_block :: "analysis_result \<Rightarrow> string list" where
  "detail_block result =
     ''Detailed per-state individual pair RMS values:''
       # concat (map (detail_state result) [1..states result])"

definition note_level_0 :: string where
  "note_level_0 = ''(Average RMS per state and detailed per-pair output suppressed; set display_level>=1 to enable per-state means or display_level==2 for full detail)''"

definition note_level_1 :: string where
  "note_level_1 = ''(Detailed per-pair output suppressed; set display_level==2 to enable)''"

definition report_foot :: "string list" where
  "report_foot = [''========================================================'', []]"

lemma format_report_lines_blocks:
  "format_report_lines dl sel base r =
     report_head @ [level_line dl] @ report_core sel base r
       @ (if 1 \<le> dl then per_state_block r else [])
       @ (if 2 \<le> dl then detail_block r
          else if dl = 0 then [note_level_0] else if dl = 1 then [note_level_1] else [])
       @ report_foot"
  by (simp add: format_report_lines_def report_head_def level_line_def report_core_def
                per_state_block_def state_table_def detail_block_def note_level_0_def
                note_level_1_def report_foot_def)

subsection \<open>Where the table headers occur\<close>

definition num_char :: "char \<Rightarrow> bool" where
  "num_char c = (c = CHR '' '' \<or> c = CHR ''-'' \<or> is_digit c)"

lemma num_char_digit_char: "num_char (digit_char d)"
  by (simp add: num_char_def is_digit_digit_char)

lemma num_chars_str_nat: "list_all num_char (str_nat n)"
proof (induction n rule: str_nat.induct)
  case (1 n)
  then show ?case
    by (cases "n < 10") (simp_all add: str_nat.simps [of n] num_char_digit_char)
qed

lemma num_chars_str_int: "list_all num_char (str_int i)"
proof (cases "i < 0")
  case True
  have "num_char CHR ''-''" by (simp add: num_char_def)
  with True show ?thesis by (simp add: str_int_def num_chars_str_nat)
next
  case False
  then show ?thesis by (simp add: str_int_def num_chars_str_nat)
qed

lemma num_chars_rjust: "list_all num_char s \<Longrightarrow> list_all num_char (rjust w s)"
proof -
  assume s: "list_all num_char s"
  have "list_all num_char (replicate k CHR '' '')" for k
    by (induction k) (simp_all add: num_char_def)
  with s show ?thesis by (simp add: rjust_def)
qed

lemma length_rjust: "w \<le> length (rjust w s)"
  by (simp add: rjust_def)

text \<open>A line that starts with a padded number differs from a line with another character there.\<close>

lemma padded_number_differs:
  assumes "list_all num_char p" and "k < length p" and "k < length h" and "\<not> num_char (h ! k)"
  shows "p @ rest \<noteq> h"
proof
  assume "p @ rest = h"
  then have "h ! k = p ! k" using assms(2) by (auto simp: nth_append)
  moreover have "num_char (p ! k)" using assms(1,2) by (simp add: list_all_length)
  ultimately show False using assms(4) by simp
qed

lemma state_table_header_text: "state_table_header = ''State     Mean RMS     #pairs''"
  by code_simp

lemma pair_table_header_text: "pair_table_header = '' Pair #          RMS''"
  by code_simp

lemma state_row_not_header:
  "state_row m i \<noteq> state_table_header" "state_row m i \<noteq> pair_table_header"
proof -
  let ?p = "rjust 5 (str_int i)"
  have p: "list_all num_char ?p" by (simp add: num_chars_rjust num_chars_str_int)
  have l: "5 \<le> length ?p" by (rule length_rjust)
  show "state_row m i \<noteq> state_table_header"
    unfolding state_row_def state_table_header_text
    by (rule padded_number_differs [OF p, of 0]) (use l in \<open>auto simp: num_char_def is_digit_def code_point_def\<close>)
  show "state_row m i \<noteq> pair_table_header"
    unfolding state_row_def pair_table_header_text
    by (rule padded_number_differs [OF p, of 1]) (use l in \<open>auto simp: num_char_def is_digit_def code_point_def\<close>)
qed

lemma pair_rows_no_header:
  "count_list (pair_rows k vals) state_table_header = 0"
  "count_list (pair_rows k vals) pair_table_header = 0"
proof -
  have r: "rjust 7 (str_nat j) @ rest \<noteq> state_table_header
         \<and> rjust 7 (str_nat j) @ rest \<noteq> pair_table_header" for j rest
  proof -
    let ?p = "rjust 7 (str_nat j)"
    have p: "list_all num_char ?p" by (simp add: num_chars_rjust num_chars_str_nat)
    have l: "7 \<le> length ?p" by (rule length_rjust)
    have "?p @ rest \<noteq> state_table_header"
      unfolding state_table_header_text
      by (rule padded_number_differs [OF p, of 0]) (use l in \<open>auto simp: num_char_def is_digit_def code_point_def\<close>)
    moreover have "?p @ rest \<noteq> pair_table_header"
      unfolding pair_table_header_text
      by (rule padded_number_differs [OF p, of 1]) (use l in \<open>auto simp: num_char_def is_digit_def code_point_def\<close>)
    ultimately show ?thesis by simp
  qed
  show "count_list (pair_rows k vals) state_table_header = 0"
    by (induction vals arbitrary: k) (simp_all add: r)
  show "count_list (pair_rows k vals) pair_table_header = 0"
    by (induction vals arbitrary: k) (simp_all add: r)
qed

lemma dashes_not_header: "dashes n \<noteq> state_table_header" "dashes n \<noteq> pair_table_header"
  by (cases n; simp add: dashes_def state_table_header_text pair_table_header_text)+

lemma str_int_first: "\<exists>c cs. str_int i = c # cs \<and> c \<noteq> CHR '' ''"
proof -
  have n: "\<exists>c cs. str_nat k = c # cs \<and> c \<noteq> CHR '' ''" for k
  proof (induction k rule: str_nat.induct)
    case (1 k)
    show ?case
    proof (cases "k < 10")
      case True
      then show ?thesis by (simp add: str_nat.simps [of k] digit_char_def)
    next
      case False
      with 1 obtain c cs where "str_nat (k div 10) = c # cs" "c \<noteq> CHR '' ''" by auto
      with False show ?thesis by (simp add: str_nat.simps [of k])
    qed
  qed
  show ?thesis
    using n [of "nat i"] by (auto simp: str_int_def)
qed

lemma head_no_header:
  "count_list report_head state_table_header = 0" "count_list report_head pair_table_header = 0"
  by (simp_all add: report_head_def state_table_header_text pair_table_header_text)

lemma foot_no_header:
  "count_list report_foot state_table_header = 0" "count_list report_foot pair_table_header = 0"
  by (simp_all add: report_foot_def state_table_header_text pair_table_header_text)

lemma level_line_not_header:
  "level_line dl \<noteq> state_table_header" "level_line dl \<noteq> pair_table_header"
  by (simp_all add: level_line_def state_table_header_text pair_table_header_text)

lemma notes_not_header:
  "note_level_0 \<noteq> state_table_header" "note_level_0 \<noteq> pair_table_header"
  "note_level_1 \<noteq> state_table_header" "note_level_1 \<noteq> pair_table_header"
  by (simp_all add: note_level_0_def note_level_1_def state_table_header_text pair_table_header_text)

lemma summary_row_not_header:
  "summary_row ''All atoms'' a m \<noteq> state_table_header"
  "summary_row ''All atoms'' a m \<noteq> pair_table_header"
  "summary_row ''Heavy atoms'' a m \<noteq> state_table_header"
  "summary_row ''Heavy atoms'' a m \<noteq> pair_table_header"
  by (simp_all add: summary_row_def ljust_def state_table_header_text pair_table_header_text)

lemma core_no_header:
  "count_list (report_core sel base r) state_table_header = 0"
  "count_list (report_core sel base r) pair_table_header = 0"
proof -
  have t: "ljust 16 ''Mode'' @ '' '' @ rjust 7 ''#atoms'' @ '' '' @ rjust 9 ''#values'' @ '' ''
          @ rjust 10 ''mean'' @ '' '' @ rjust 10 ''sd'' \<noteq> state_table_header"
    "ljust 16 ''Mode'' @ '' '' @ rjust 7 ''#atoms'' @ '' '' @ rjust 9 ''#values'' @ '' ''
          @ rjust 10 ''mean'' @ '' '' @ rjust 10 ''sd'' \<noteq> pair_table_header"
    by (simp_all add: ljust_def state_table_header_text pair_table_header_text)
  have l: "[] \<noteq> state_table_header" "[] \<noteq> pair_table_header"
    "''############ Data selection ############'' \<noteq> state_table_header"
    "''############ Data selection ############'' \<noteq> pair_table_header"
    "''xxxxxxxxxxxxxxxxxxxxxxxxxxxxxxxxxxxxxxxx'' \<noteq> state_table_header"
    "''xxxxxxxxxxxxxxxxxxxxxxxxxxxxxxxxxxxxxxxx'' \<noteq> pair_table_header"
    "''Resolved selection: '' @ base \<noteq> state_table_header"
    "''Resolved selection: '' @ base \<noteq> pair_table_header"
    "''States inspected: '' @ str_int (states r) \<noteq> state_table_header"
    "''States inspected: '' @ str_int (states r) \<noteq> pair_table_header"
    "''Atoms selected:'' \<noteq> state_table_header"
    "''Atoms selected:'' \<noteq> pair_table_header"
    "''  All: '' @ natoms_str (atom_counts_all r) \<noteq> state_table_header"
    "''  All: '' @ natoms_str (atom_counts_all r) \<noteq> pair_table_header"
    "''  Heavy (no H): '' @ natoms_str (atom_counts_no_hydrogen r) \<noteq> state_table_header"
    "''  Heavy (no H): '' @ natoms_str (atom_counts_no_hydrogen r) \<noteq> pair_table_header"
    "''########################################'' \<noteq> state_table_header"
    "''########################################'' \<noteq> pair_table_header"
    "''======================== RMS Summary ========================'' \<noteq> state_table_header"
    "''======================== RMS Summary ========================'' \<noteq> pair_table_header"
    by (simp_all add: state_table_header_text pair_table_header_text)
  have n: "''Note: no explicit selection was provided, so the script selected all atoms in the object.'' \<noteq> state_table_header"
    "''Note: no explicit selection was provided, so the script selected all atoms in the object.'' \<noteq> pair_table_header"
    "''If you want a subset (for example only chain A), pass a selection string via the 'selection' argument, e.g.: selection='chain A'' @ [CHR 0x27] \<noteq> state_table_header"
    "''If you want a subset (for example only chain A), pass a selection string via the 'selection' argument, e.g.: selection='chain A'' @ [CHR 0x27] \<noteq> pair_table_header"
    "''It is not necessary to explicitely exlude hydrogen atoms. RMS statistics are calculated both including and excluding hydrogens automatically.'' \<noteq> state_table_header"
    "''It is not necessary to explicitely exlude hydrogen atoms. RMS statistics are calculated both including and excluding hydrogens automatically.'' \<noteq> pair_table_header"
    by (simp_all add: state_table_header_text pair_table_header_text)
  show "count_list (report_core sel base r) state_table_header = 0"
    unfolding report_core_def
    by (simp only: count_list.simps count_list_append t l n dashes_not_header
                   summary_row_not_header if_False add_0 split: if_split) simp
  show "count_list (report_core sel base r) pair_table_header = 0"
    unfolding report_core_def
    by (simp only: count_list.simps count_list_append t l n dashes_not_header
                   summary_row_not_header if_False add_0 split: if_split) simp
qed

lemma state_rows_no_header:
  "count_list (map (state_row m) idxs) state_table_header = 0"
  "count_list (map (state_row m) idxs) pair_table_header = 0"
  by (induction idxs) (simp_all add: state_row_not_header)

lemma state_table_headers:
  "count_list (state_table m n) state_table_header = 1"
  "count_list (state_table m n) pair_table_header = 0"
proof -
  have d: "state_table_header \<noteq> pair_table_header"
    by (simp add: state_table_header_text pair_table_header_text)
  show "count_list (state_table m n) state_table_header = 1"
    by (simp add: state_table_def dashes_not_header state_rows_no_header)
  show "count_list (state_table m n) pair_table_header = 0"
    by (simp add: state_table_def dashes_not_header state_rows_no_header d)
qed

lemma per_state_block_headers:
  "count_list (per_state_block r) state_table_header = 2"
  "count_list (per_state_block r) pair_table_header = 0"
proof -
  have l: "''Average RMS per state (showing NaN where unavailable):'' \<noteq> state_table_header"
    "''Average RMS per state (showing NaN where unavailable):'' \<noteq> pair_table_header"
    "[] \<noteq> state_table_header" "[] \<noteq> pair_table_header"
    "''All atoms:'' \<noteq> state_table_header" "''All atoms:'' \<noteq> pair_table_header"
    "''Heavy atoms (no H):'' \<noteq> state_table_header" "''Heavy atoms (no H):'' \<noteq> pair_table_header"
    by (simp_all add: state_table_header_text pair_table_header_text)
  show "count_list (per_state_block r) state_table_header = 2"
    by (simp add: per_state_block_def l dashes_not_header state_table_headers)
  show "count_list (per_state_block r) pair_table_header = 0"
    by (simp add: per_state_block_def l dashes_not_header state_table_headers)
qed

lemma pair_lines_no_header:
  "count_list (pair_lines vals) state_table_header = 0"
  "count_list (pair_lines vals) pair_table_header = 0"
  by (simp_all add: pair_lines_def pair_rows_no_header)
     (simp_all add: state_table_header_text pair_table_header_text)

lemma state_title_not_header:
  "''State '' @ str_int i @ rest \<noteq> state_table_header"
  "''State '' @ str_int i @ rest \<noteq> pair_table_header"
proof -
  obtain c cs where "str_int i = c # cs" "c \<noteq> CHR '' ''"
    using str_int_first [of i] by blast
  then show "''State '' @ str_int i @ rest \<noteq> state_table_header"
    by (simp add: state_table_header_text)
  show "''State '' @ str_int i @ rest \<noteq> pair_table_header"
    by (simp add: pair_table_header_text)
qed

lemma detail_state_headers:
  "count_list (detail_state r i) state_table_header = 0"
  "count_list (detail_state r i) pair_table_header = 2"
proof -
  have l: "[] \<noteq> state_table_header" "[] \<noteq> pair_table_header"
    "pair_table_header \<noteq> state_table_header"
    by (simp_all add: state_table_header_text pair_table_header_text)
  show "count_list (detail_state r i) state_table_header = 0"
    unfolding detail_state_def
    by (simp only: count_list.simps count_list_append l dashes_not_header pair_lines_no_header
                   state_title_not_header if_False if_True refl; simp)
  show "count_list (detail_state r i) pair_table_header = 2"
    unfolding detail_state_def
    by (simp only: count_list.simps count_list_append l dashes_not_header pair_lines_no_header
                   state_title_not_header if_False if_True refl; simp)
qed

lemma detail_states_headers:
  "count_list (concat (map (detail_state r) idxs)) state_table_header = 0"
  "count_list (concat (map (detail_state r) idxs)) pair_table_header = 2 * length idxs"
  by (induction idxs) (simp_all add: detail_state_headers)

lemma detail_block_headers:
  "count_list (detail_block r) state_table_header = 0"
  "count_list (detail_block r) pair_table_header = 2 * length [1..states r]"
  by (simp_all add: detail_block_def detail_states_headers)
     (simp_all add: state_table_header_text pair_table_header_text)

subsection \<open>Steps that differ in their prints only\<close>

definition agree :: "'a step \<Rightarrow> 'a step \<Rightarrow> bool" where
  "agree m m' = (fst m = fst m' \<and> silent (snd m) = silent (snd m'))"

lemma agree_refl: "agree m m"
  by (simp add: agree_def)

lemma agree_and_then:
  assumes "agree m m'" and "\<And>a. agree (k a) (k' a)"
  shows "agree (and_then m k) (and_then m' k')"
proof -
  obtain r ev where m: "m = (r, ev)" by (cases m)
  obtain r' ev' where m': "m' = (r', ev')" by (cases m')
  from assms(1) have r: "r' = r" and s: "silent ev = silent ev'"
    by (simp_all add: agree_def m m')
  show ?thesis
  proof (cases r)
    case (Inl x)
    then show ?thesis by (simp add: and_then_def m m' r s agree_def)
  next
    case (Inr a)
    with assms(2) [of a] show ?thesis
      by (simp add: and_then_def m m' r s agree_def case_prod_beta silent_simps)
  qed
qed

lemma agree_p_with:
  "print_raises f s = None \<Longrightarrow> agree (p_with f q s) (p_with f q' s)"
  by (simp add: p_with_def emit_def returns_def agree_def silent_simps)

lemma agree_compute_state_with:
  assumes "\<forall>s. print_raises f s = None"
  shows "agree (compute_state_with f e q s i acc) (compute_state_with f e q' s i acc)"
proof -
  obtain M A P where acc: "acc = (M, A, P)" by (cases acc)
  show ?thesis
  proof (cases "intra_fit e s i")
    case (Inl exc)
    then show ?thesis
      unfolding compute_state_with_def acc
      by (auto intro!: agree_and_then agree_refl agree_p_with simp: assms)
  next
    case (Inr v)
    then show ?thesis
      unfolding compute_state_with_def acc by (simp add: agree_refl)
  qed
qed

lemma agree_compute_loop_with:
  assumes "\<forall>s. print_raises f s = None"
  shows "agree (compute_loop_with f e q s idxs acc) (compute_loop_with f e q' s idxs acc)"
proof (induction idxs arbitrary: acc)
  case Nil
  then show ?case by (simp add: agree_refl)
next
  case (Cons i idxs)
  show ?case
    by (simp, rule agree_and_then) (rule agree_compute_state_with [OF assms], rule Cons.IH)
qed

lemma agree_compute_mode_with:
  "\<forall>s. print_raises f s = None \<Longrightarrow>
   agree (compute_mode_with f e q n s) (compute_mode_with f e q' n s)"
  by (simp add: compute_mode_with_def agree_compute_loop_with)

lemma agree_try_count_atoms_with:
  assumes "\<forall>s. print_raises f s = None"
  shows "agree (try_count_atoms_with f e q s) (try_count_atoms_with f e q' s)"
  unfolding try_count_atoms_with_def
  by (cases "count_atoms e s") (auto intro!: agree_and_then agree_refl agree_p_with simp: assms)

lemma agree_print_lines_with:
  assumes "\<forall>s. print_raises f s = None"
  shows "agree (print_lines_with f q ls) (print_lines_with f q' ls)"
proof (induction ls)
  case Nil
  then show ?case by (simp add: agree_refl)
next
  case (Cons l ls)
  show ?case
    by (simp, rule agree_and_then) (simp add: agree_p_with assms, rule Cons.IH)
qed

lemma agree_export_failed_with:
  assumes "\<forall>s. print_raises f s = None"
  shows "agree (export_failed_with f q rp r exc) (export_failed_with f q' rp r exc)"
  unfolding export_failed_with_def Let_def
  by (auto intro!: agree_and_then agree_refl agree_p_with simp: assms)

lemma agree_announce:
  "agree (and_then (emit (Print s)) (\<lambda>u. returns r)) (returns r)"
  "agree (returns r) (and_then (emit (Print s)) (\<lambda>u. returns r))"
  by (simp_all add: agree_def and_then_def emit_def returns_def silent_simps)

lemma agree_export_report_file_with:
  assumes "\<forall>s. print_raises f s = None"
  shows "agree (export_report_file_with f e q obj sel rp ls r)
               (export_report_file_with f e q' obj sel rp ls r)"
proof (cases "is_dir e rp")
  case (Inl exc)
  then show ?thesis
    unfolding export_report_file_with_def
    by (auto intro!: agree_and_then agree_refl agree_export_failed_with [OF assms])
next
  case (Inr dir)
  let ?fp = "if dir then InDir rp (report_filename obj sel (now e)) else Literal rp"
  let ?t = "join newline ls @ newline"
  show ?thesis
  proof (cases "write_text e ?fp ?t")
    case (Inl exc)
    with Inr show ?thesis
      unfolding export_report_file_with_def Let_def
      by (auto intro!: agree_and_then agree_refl agree_export_failed_with [OF assms])
  next
    case r: (Inr resolved)
    with Inr show ?thesis
      unfolding export_report_file_with_def Let_def
      by (auto intro!: agree_and_then agree_refl agree_announce simp: assms)
  qed
qed

lemma agree_present_with:
  assumes "\<forall>s. print_raises f s = None"
  shows "agree (present_with f e obj sel q dl ex rp base r) (present_with f e obj sel q' dl ex rp base r)"
  unfolding present_with_def Let_def
  by (cases "getcwd_raises f")
     (auto intro!: agree_and_then agree_refl agree_p_with agree_print_lines_with [OF assms]
                   agree_export_report_file_with [OF assms]
           simp: assms)

lemma agree_analyse_with:
  assumes "\<forall>s. print_raises f s = None"
  shows "agree (analyse_with f e obj sel q dl ex rp base r0) (analyse_with f e obj sel q' dl ex rp base r0)"
  unfolding analyse_with_def Let_def
  by (auto intro!: agree_and_then agree_refl agree_try_count_atoms_with [OF assms]
                   agree_compute_mode_with [OF assms] agree_present_with [OF assms]
           split: prod.splits)

lemma agree_finish:
  "agree m m' \<Longrightarrow> fst (finish m) = fst (finish m') \<and> silent (snd (finish m)) = silent (snd (finish m'))"
  by (cases m; cases m') (auto simp: agree_def finish_def split: sum.splits)

lemma agree_run_with:
  assumes "\<forall>s. print_raises f s = None"
  shows "agree (run_with f e obj sel q dl ex rp) (run_with f e obj sel q' dl ex rp)"
  unfolding run_with_def Let_def
  by (cases "count_states e obj")
     (auto intro!: agree_and_then agree_refl agree_p_with agree_analyse_with [OF assms]
           simp: assms)

lemma agree_run:
  assumes "\<forall>s. print_raises f s = None"
  shows "fst (calculate_rms_stats_with f e obj sel q dl ex rp)
           = fst (calculate_rms_stats_with f e obj sel q' dl ex rp)
       \<and> silent (snd (calculate_rms_stats_with f e obj sel q dl ex rp))
           = silent (snd (calculate_rms_stats_with f e obj sel q' dl ex rp))"
proof (cases obj)
  case None
  then show ?thesis
    by (simp add: calculate_rms_stats_with_def p_with_def emit_def returns_def assms silent_simps)
next
  case (Some o')
  show ?thesis
  proof (cases "dl \<noteq> 0 \<and> dl \<noteq> 1 \<and> dl \<noteq> 2")
    case True
    then show ?thesis by (simp add: Some calculate_rms_stats_with_def)
  next
    case False
    then have run: "calculate_rms_stats_with f e (Some o') sel q'' dl ex rp
                      = finish (run_with f e o' sel q'' dl ex rp)" for q''
      by (auto simp: calculate_rms_stats_with_def)
    show ?thesis
      unfolding Some run by (rule agree_finish [OF agree_run_with [OF assms]])
  qed
qed

subsection \<open>Steps without prints\<close>

definition printless :: "'a step \<Rightarrow> bool" where
  "printless m = (filter is_print (snd m) = [])"

lemma printless_and_then:
  assumes "printless m" and "\<And>a. printless (k a)"
  shows "printless (and_then m k)"
proof -
  obtain r ev where m: "m = (r, ev)" by (cases m)
  show ?thesis
  proof (cases r)
    case (Inl x)
    with assms(1) show ?thesis by (simp add: and_then_def m printless_def)
  next
    case (Inr a)
    with assms(1) assms(2) [of a] show ?thesis
      by (simp add: and_then_def m printless_def case_prod_beta)
  qed
qed

lemma printless_simple:
  "printless (returns a)" "printless (raises x)" "printless (p_with f True s)"
  "printless (emit (CountStates s))" "printless (emit (CountAtoms s))"
  "printless (emit (IntraFit s i))" "printless (emit (IsDir s))" "printless (emit Now)"
  "printless (emit (WriteText p t))"
  by (simp_all add: printless_def returns_def raises_def p_with_def emit_def)

lemma printless_compute_state_with: "printless (compute_state_with f e True s i acc)"
proof -
  obtain M A P where acc: "acc = (M, A, P)" by (cases acc)
  show ?thesis
    unfolding compute_state_with_def acc Let_def
    by (auto intro!: printless_and_then printless_simple split: sum.splits)
qed

lemma printless_compute_loop_with: "printless (compute_loop_with f e True s idxs acc)"
  by (induction idxs arbitrary: acc)
     (auto intro!: printless_and_then printless_simple printless_compute_state_with)

lemma printless_try_count_atoms_with: "printless (try_count_atoms_with f e True s)"
  unfolding try_count_atoms_with_def
  by (auto intro!: printless_and_then printless_simple split: sum.splits)

lemma printless_print_lines_with: "printless (print_lines_with f True ls)"
  by (induction ls) (auto intro!: printless_and_then printless_simple)

lemma printless_export_failed_with: "printless (export_failed_with f True rp r exc)"
  unfolding export_failed_with_def Let_def
  by (auto intro!: printless_and_then printless_simple)

lemma printless_export_report_file_with: "printless (export_report_file_with f e True obj sel rp ls r)"
  unfolding export_report_file_with_def Let_def
  by (auto intro!: printless_and_then printless_simple printless_export_failed_with
           split: sum.splits)

lemma printless_present_with: "printless (present_with f e obj sel True dl ex rp base r)"
  unfolding present_with_def Let_def
  by (auto intro!: printless_and_then printless_simple printless_print_lines_with
                   printless_export_report_file_with
           split: option.splits)

lemma printless_analyse_with: "printless (analyse_with f e obj sel True dl ex rp base r0)"
  unfolding analyse_with_def Let_def summarize_step_def compute_mode_with_def
  by (auto intro!: printless_and_then printless_simple printless_try_count_atoms_with
                   printless_compute_loop_with printless_present_with
           split: prod.splits sum.splits)

lemma printless_run_with: "printless (run_with f e obj sel True dl ex rp)"
  unfolding run_with_def Let_def
  by (auto intro!: printless_and_then printless_simple printless_analyse_with split: sum.splits)

lemma printless_run:
  "filter is_print (snd (calculate_rms_stats_with f e obj sel True dl ex rp)) = []"
proof (cases obj)
  case None
  then show ?thesis
    by (simp add: calculate_rms_stats_with_def p_with_def returns_def)
next
  case (Some o')
  have "filter is_print (snd (finish (run_with f e o' sel True dl ex rp))) = []"
    using printless_run_with [of f e o' sel dl ex rp]
    by (cases "run_with f e o' sel True dl ex rp") (auto simp: printless_def finish_def split: sum.splits)
  then show ?thesis
    unfolding Some calculate_rms_stats_with_def by (simp del: filter_False)
qed

subsection \<open>Without faults the two runs are the same\<close>


lemma and_then_value: "and_then (Inr a, ev) k = (fst (k a), ev @ snd (k a))"
  by (simp add: and_then_def case_prod_beta)
















subsection \<open>Sample sessions with faults\<close>

text \<open>
  An object with one state: the toolkit answers \<open>[-1]\<close>, the state against itself. The
  working directory holds the letter U+00E9, and so does the resolved path of a report written
  there.
\<close>

definition single_state_env :: env where
  "single_state_env =
     \<lparr>count_states = (\<lambda>obj. Inr 1),
      count_atoms = (\<lambda>s. Inr 20),
      intra_fit = (\<lambda>s i. Inr (ReplySeq [Elem (Fl (- 1))])),
      is_dir = (\<lambda>p. Inr False),
      now = \<lparr>year = 2025, month = 3, day = 9, hour = 14, minute = 5, second = 7\<rparr>,
      write_text = (\<lambda>p t. Inr (''/home/ren'' @ [CHR 0xE9] @ ''/report.txt'')),
      getcwd = ''/home/ren'' @ [CHR 0xE9]\<rparr>"

text \<open>A console that encodes ASCII only: \<^verbatim>\<open>print\<close> raises on any other character.\<close>

definition ascii_console :: faults where
  "ascii_console =
     \<lparr>print_raises = (\<lambda>s. if list_all (\<lambda>c. code_point c < 128) s then None
                           else Some ''ascii codec cannot encode character''),
      getcwd_raises = None,
      huge_int = (\<lambda>s i. False)\<rparr>"


fun is_returned :: "outcome \<Rightarrow> bool" where
  "is_returned (Returned r) = True"
| "is_returned out = False"

fun error_of :: "outcome \<Rightarrow> string option" where
  "error_of (Returned r) = error r"
| "error_of out = None"

definition single_state_mode :: mode_result where
  "single_state_mode =
     \<lparr>per_state_means = [1 \<mapsto> NaN], per_state_pairs = [1 \<mapsto> []], all_rms = [],
      overall_mean = NaN, overall_sd = NaN\<rparr>"

definition single_state_result :: analysis_result where
  "single_state_result =
     \<lparr>mode_all = single_state_mode, mode_no_hydrogen = single_state_mode,
      selection = Some ''(1A1T) and (all)'',
      atom_counts_all = Some 20, atom_counts_no_hydrogen = Some 20, states = 1,
      report_file = None, error = None\<rparr>"

lemma single_state_compute_mode:
  assumes "\<not> huge_int f s 1"
  shows "compute_mode_with f single_state_env q 1 s
           = (Inr ([1 \<mapsto> NaN], [], [1 \<mapsto> []]), [IntraFit s 1])"
proof -
  have u: "[1..1] = [1::int]" by (simp add: upto.simps)
  show ?thesis
    using assms
    by (simp add: compute_mode_with_def u compute_state_with_def single_state_env_def
                  and_then_def emit_def returns_def)
qed

lemma single_state_count_atoms:
  "try_count_atoms_with f single_state_env q s = (Inr (Some 20), [CountAtoms s])"
  by (simp add: try_count_atoms_with_def single_state_env_def and_then_def emit_def returns_def)

lemma single_state_summarize:
  "summarize_step empty_mode [1 \<mapsto> NaN] [] [1 \<mapsto> []] = (Inr single_state_mode, [])"
  by (simp add: summarize_step_def summarize_def empty_mode_def single_state_mode_def returns_def)

lemma single_state_analyse:
  assumes "\<forall>s i. \<not> huge_int f s i"
  shows "analyse_with f single_state_env ''1A1T'' ''all'' q dl ex rp ''(1A1T) and (all)''
           (initial_result\<lparr>selection := Some ''(1A1T) and (all)'', states := 1\<rparr>)
         = and_then
             (Inr (),
              [CountAtoms ''(1A1T) and (all)'', CountAtoms ''(1A1T) and (all) and (not hydro)'',
               IntraFit ''(1A1T) and (all)'' 1, IntraFit ''(1A1T) and (all) and (not hydro)'' 1])
             (\<lambda>u. present_with f single_state_env ''1A1T'' ''all'' q dl ex rp ''(1A1T) and (all)''
                     single_state_result)"
proof -
  have r: "initial_result\<lparr>selection := Some ''(1A1T) and (all)'', states := 1,
             atom_counts_all := Some 20, atom_counts_no_hydrogen := Some 20,
             mode_all := single_state_mode, mode_no_hydrogen := single_state_mode\<rparr>
           = single_state_result"
    by (simp add: initial_result_def single_state_result_def)
  have m: "mode_all initial_result = empty_mode" "mode_no_hydrogen initial_result = empty_mode"
    by (simp_all add: initial_result_def)
  show ?thesis
    unfolding analyse_with_def Let_def
    by (simp add: single_state_count_atoms single_state_compute_mode assms and_then_value m
                  single_state_summarize r case_prod_beta)
qed

lemma single_state_run:
  assumes "\<forall>s i. \<not> huge_int f s i" and "dl = 0 \<or> dl = 1 \<or> dl = 2"
  shows "fst (calculate_rms_stats_with f single_state_env (Some ''1A1T'') ''all'' q dl ex rp)
         = fst (finish (present_with f single_state_env ''1A1T'' ''all'' q dl ex rp
                          ''(1A1T) and (all)'' single_state_result))"
proof -
  have c: "count_states single_state_env ''1A1T'' = Inr 1"
    by (simp add: single_state_env_def)
  have "calculate_rms_stats_with f single_state_env (Some ''1A1T'') ''all'' q dl ex rp
          = finish (run_with f single_state_env ''1A1T'' ''all'' q dl ex rp)"
    using assms(2) by (auto simp: calculate_rms_stats_with_def)
  also have "run_with f single_state_env ''1A1T'' ''all'' q dl ex rp
          = and_then (emit (CountStates ''1A1T'')) (\<lambda>u.
              analyse_with f single_state_env ''1A1T'' ''all'' q dl ex rp ''(1A1T) and (all)''
                (initial_result\<lparr>selection := Some ''(1A1T) and (all)'', states := 1\<rparr>))"
    by (simp add: run_with_def c Let_def)
  finally show ?thesis
    by (cases "present_with f single_state_env ''1A1T'' ''all'' q dl ex rp
                 ''(1A1T) and (all)'' single_state_result")
       (auto simp: single_state_analyse [OF assms(1)] and_then_def emit_def finish_def
             split: sum.splits)
qed

lemma single_state_export_quiet:
  "map_sum id error
     (fst (present_with ascii_console single_state_env ''1A1T'' ''all'' True 1 True ''report.txt''
             ''(1A1T) and (all)'' single_state_result)) = Inr None"
  by code_simp

lemma single_state_export_loud:
  "map_sum id error
     (fst (present_with ascii_console single_state_env ''1A1T'' ''all'' False 1 True ''report.txt''
             ''(1A1T) and (all)'' single_state_result))
   = Inr (Some ''Failed to write report to 'report.txt': ascii codec cannot encode character'')"
  by code_simp

text \<open>The toolkit returns an \<^verbatim>\<open>int\<close> beyond the range of floats for every state.\<close>

definition huge_replies :: faults where
  "huge_replies = \<lparr>print_raises = (\<lambda>s. None), getcwd_raises = None, huge_int = (\<lambda>s i. True)\<rparr>"


lemma finish_error:
  "map_sum id error (fst m) = Inr x \<Longrightarrow> is_returned (fst (finish m)) \<and> error_of (fst (finish m)) = x"
  by (cases m) (auto simp: finish_def split: sum.splits)


lemma ascii_console_no_huge: "\<forall>s i. \<not> huge_int ascii_console s i"
  by (simp add: ascii_console_def)




lemma huge_scalar_escapes:
  "fst (calculate_rms_stats_with huge_replies single_state_env (Some ''1A1T'') ''all'' True 1 False ''.'')
     = Raised (OverflowError ''int too large to convert to float'')"
proof -
  have c: "count_states single_state_env ''1A1T'' = Inr 1"
    by (simp add: single_state_env_def)
  have u: "[1..1] = [1::int]" by (simp add: upto.simps)
  have m: "compute_mode_with huge_replies single_state_env True 1 s
             = (Inl (OverflowError ''int too large to convert to float''), [IntraFit s 1])" for s
    by (simp add: compute_mode_with_def u compute_state_with_def single_state_env_def
                  huge_replies_def and_then_def emit_def raises_def)
  show ?thesis
    by (simp add: calculate_rms_stats_with_def run_with_def Let_def c analyse_with_def
                  single_state_count_atoms m and_then_def emit_def finish_def)
qed

subsection \<open>The two outcomes of the state count\<close>



section \<open>The claims\<close>

text \<open>
  C1. In each mode of a returned result, \<open>overall_mean\<close> is the arithmetic mean of
  \<open>all_rms\<close>, and is \<open>NaN\<close> exactly when \<open>all_rms\<close> is empty; \<open>overall_sd\<close> is the sample
  standard deviation (denominator \<open>n - 1\<close>) of \<open>all_rms\<close> when it has two values or more, and
  \<open>NaN\<close> otherwise. The values of \<open>all_rms\<close> are finite, so the mean and the deviation are
  written out on their reals \<open>rs\<close>.
\<close>

theorem overall_mean_and_sd:
  assumes "fst (calculate_rms_stats e obj sel q dl ex rp) = Returned r"
    and "m = mode_all r \<or> m = mode_no_hydrogen r"
  shows "(overall_mean m = NaN \<longleftrightarrow> all_rms m = [])
       \<and> (\<exists>rs. all_rms m = map Fl rs
             \<and> (rs \<noteq> [] \<longrightarrow> overall_mean m = Fl (sum_list rs / real (length rs)))
             \<and> (2 \<le> length rs \<longrightarrow>
                  overall_sd m =
                    Fl (sqrt (sum_list (map (\<lambda>x. (x - sum_list rs / real (length rs))\<^sup>2) rs)
                              / (real (length rs) - 1))))
             \<and> (length rs < 2 \<longrightarrow> overall_sd m = NaN))"
proof -
  from returned_modes [OF assms(1)] assms(2)
  obtain s where m: "m = mode_final e s (states r)" by auto
  let ?A = "concat (map (state_pairs e s) [1..states r])"
  have A: "all_rms m = ?A" and mean: "overall_mean m = mean_or_nan ?A"
    and sd: "overall_sd m = sd_or_nan ?A"
    by (simp_all add: m mode_final_def)
  from reals_of_ge0 [OF list_all_ge0_concat [of e s "[1..states r]"]]
  obtain rs where rs: "?A = map Fl rs" by auto
  have 1: "overall_mean m = NaN \<longleftrightarrow> all_rms m = []"
  proof (cases "rs = []")
    case True
    then show ?thesis by (simp add: A mean rs mean_or_nan_Nil)
  next
    case False
    then show ?thesis by (simp add: A mean rs mean_or_nan_reals)
  qed
  have 2: "rs \<noteq> [] \<longrightarrow> overall_mean m = Fl (sum_list rs / real (length rs))"
    by (simp add: mean rs mean_or_nan_reals)
  have 3: "2 \<le> length rs \<longrightarrow>
        overall_sd m = Fl (sqrt (sum_list (map (\<lambda>x. (x - sum_list rs / real (length rs))\<^sup>2) rs)
                              / (real (length rs) - 1)))"
    by (simp add: sd rs sd_or_nan_reals)
  have 4: "length rs < 2 \<longrightarrow> overall_sd m = NaN"
    by (simp add: sd rs sd_or_nan_short)
  from 1 2 3 4 A rs show ?thesis by metis
qed

theorem overall_mean_and_sd_witness:
  "fst (calculate_rms_stats demo_env (Some ''1A1T'') ''all'' True 1 False ''.'') = Returned demo_result
   \<and> (overall_mean (mode_all demo_result) = NaN \<longleftrightarrow> all_rms (mode_all demo_result) = [])
   \<and> all_rms (mode_all demo_result) = map Fl [1, 2, 3]
   \<and> overall_mean (mode_all demo_result) = Fl 2
   \<and> overall_sd (mode_all demo_result) = Fl 1"
  using overall_mean_and_sd [OF demo_run, of "mode_all demo_result"] demo_run
  by (simp add: demo_result_def demo_mode_def)

text \<open>
  C2. In each mode of a returned result, \<open>per_state_pairs\<close> has an entry for every state from
  1 to \<open>states\<close> and for no other, \<open>all_rms\<close> is the concatenation of these entries in
  ascending order of the state, and its length is the sum of their lengths.
\<close>

theorem all_rms_is_concatenation:
  assumes "fst (calculate_rms_stats e obj sel q dl ex rp) = Returned r"
    and "m = mode_all r \<or> m = mode_no_hydrogen r"
  shows "dom (per_state_pairs m) = {1..states r}
       \<and> all_rms m = concat (map (\<lambda>s. the (per_state_pairs m s)) [1..states r])
       \<and> length (all_rms m) = sum_list (map (\<lambda>s. length (the (per_state_pairs m s))) [1..states r])"
proof -
  from returned_modes [OF assms(1)] assms(2)
  obtain s where m: "m = mode_final e s (states r)" by auto
  have a: "all_rms m = concat (map (\<lambda>s. the (per_state_pairs m s)) [1..states r])"
    unfolding m by (rule mode_final_all_rms)
  have "length (all_rms m) = length (concat (map (\<lambda>s. the (per_state_pairs m s)) [1..states r]))"
    using a by simp
  then have "length (all_rms m) = sum_list (map (\<lambda>s. length (the (per_state_pairs m s))) [1..states r])"
    by (simp add: length_concat_sum comp_def)
  with a show ?thesis
    by (simp add: m dom_mode_final_pairs)
qed

theorem all_rms_is_concatenation_witness:
  "fst (calculate_rms_stats demo_env (Some ''1A1T'') ''all'' True 1 False ''.'') = Returned demo_result
   \<and> dom (per_state_pairs (mode_all demo_result)) = {1..3}
   \<and> all_rms (mode_all demo_result)
       = concat (map (\<lambda>s. the (per_state_pairs (mode_all demo_result) s)) [1..3])
   \<and> length (all_rms (mode_all demo_result))
       = sum_list (map (\<lambda>s. length (the (per_state_pairs (mode_all demo_result) s))) [1..3])"
proof -
  have s: "states demo_result = 3" by (simp add: demo_result_def)
  note t = all_rms_is_concatenation [OF demo_run disjI1 [OF refl]]
  from demo_run t [unfolded s] show ?thesis by (rule conjI)
qed

text \<open>
  C3. In each mode of a returned result no value of \<open>all_rms\<close> and no value of a
  \<open>per_state_pairs\<close> list is below zero. And the negative values the toolkit returns change
  nothing: a run against the toolkit with every negative value taken out of its replies has
  the same outcome (per-state means, overall mean and deviation included) and the same trace.
\<close>

theorem negatives_filtered:
  assumes "fst (calculate_rms_stats e obj sel q dl ex rp) = Returned r"
    and "m = mode_all r \<or> m = mode_no_hydrogen r"
  shows "list_all (\<lambda>x. \<not> negative x) (all_rms m)
       \<and> (\<forall>s xs. per_state_pairs m s = Some xs \<longrightarrow> list_all (\<lambda>x. \<not> negative x) xs)
       \<and> calculate_rms_stats (without_negatives e) obj sel q dl ex rp
           = calculate_rms_stats e obj sel q dl ex rp"
proof -
  from returned_modes [OF assms(1)] assms(2)
  obtain s where m: "m = mode_final e s (states r)" by auto
  have 1: "list_all (\<lambda>x. \<not> negative x) (all_rms m)"
    by (simp add: m mode_final_def concat_not_negative)
  have 2: "\<forall>k xs. per_state_pairs m k = Some xs \<longrightarrow> list_all (\<lambda>x. \<not> negative x) xs"
    by (auto simp: m mode_final_pairs state_pairs_not_negative split: if_splits)
  from 1 2 run_without_negatives show ?thesis by blast
qed

theorem negatives_filtered_witness:
  "fst (calculate_rms_stats demo_env (Some ''1A1T'') ''all'' True 1 False ''.'') = Returned demo_result
   \<and> intra_fit demo_env ''(1A1T) and (all)'' 2 = Inr (ReplySeq [Elem (Fl (- 1))])
   \<and> list_all (\<lambda>x. \<not> negative x) (all_rms (mode_all demo_result))
   \<and> per_state_pairs (mode_all demo_result) 2 = Some []
   \<and> calculate_rms_stats (without_negatives demo_env) (Some ''1A1T'') ''all'' True 1 False ''.''
       = calculate_rms_stats demo_env (Some ''1A1T'') ''all'' True 1 False ''.''"
proof -
  have i: "intra_fit demo_env ''(1A1T) and (all)'' 2 = Inr (ReplySeq [Elem (Fl (- 1))])"
    by (simp add: demo_env_def)
  have p: "per_state_pairs (mode_all demo_result) 2 = Some []"
    by (simp add: demo_result_def demo_mode_def)
  note t = negatives_filtered [OF demo_run disjI1 [OF refl]]
  from demo_run i t p show ?thesis by blast
qed

text \<open>
  C4. When the toolkit answers \<open>[1, 2]\<close>, \<open>[]\<close> and \<open>[3]\<close> for the states 1, 2 and 3 of a
  selection, \<^verbatim>\<open>compute_mode\<close> over three states gives the per-state means
  \<open>{1: 1.5, 2: nan, 3: 3}\<close>, \<open>all_rms = [1, 2, 3]\<close> and the three pair lists, and
  \<^verbatim>\<open>summarize\<close> gives the overall mean 2 and the overall deviation 1.
\<close>

theorem worked_example:
  assumes "intra_fit e s 1 = Inr (ReplySeq [Elem (Fl 1), Elem (Fl 2)])"
    and "intra_fit e s 2 = Inr (ReplySeq [])"
    and "intra_fit e s 3 = Inr (ReplySeq [Elem (Fl 3)])"
  shows "fst (compute_mode e q 3 s)
           = Inr ([1 \<mapsto> Fl (3 / 2), 2 \<mapsto> NaN, 3 \<mapsto> Fl 3],
                  [Fl 1, Fl 2, Fl 3],
                  [1 \<mapsto> [Fl 1, Fl 2], 2 \<mapsto> [], 3 \<mapsto> [Fl 3]])
       \<and> summarize empty_mode [1 \<mapsto> Fl (3 / 2), 2 \<mapsto> NaN, 3 \<mapsto> Fl 3] [Fl 1, Fl 2, Fl 3]
                     [1 \<mapsto> [Fl 1, Fl 2], 2 \<mapsto> [], 3 \<mapsto> [Fl 3]]
           = Inr \<lparr>per_state_means = [1 \<mapsto> Fl (3 / 2), 2 \<mapsto> NaN, 3 \<mapsto> Fl 3],
                  per_state_pairs = [1 \<mapsto> [Fl 1, Fl 2], 2 \<mapsto> [], 3 \<mapsto> [Fl 3]],
                  all_rms = [Fl 1, Fl 2, Fl 3],
                  overall_mean = Fl 2,
                  overall_sd = Fl 1\<rparr>"
proof -
  have sp: "state_pairs e s 1 = [Fl 1, Fl 2]" "state_pairs e s 2 = []" "state_pairs e s 3 = [Fl 3]"
    using assms by (simp_all add: state_pairs_def)
  have m: "loop_means e s [1, 2, 3] Map.empty = [1 \<mapsto> Fl (3 / 2), 2 \<mapsto> NaN, 3 \<mapsto> Fl 3]"
    by (auto simp: loop_means_def fun_eq_iff sp mean_or_nan_def statistics_mean_def)
  have p: "loop_pairs e s [1, 2, 3] Map.empty = [1 \<mapsto> [Fl 1, Fl 2], 2 \<mapsto> [], 3 \<mapsto> [Fl 3]]"
    by (auto simp: loop_pairs_def fun_eq_iff sp)
  have 1: "fst (compute_mode e q 3 s)
           = Inr ([1 \<mapsto> Fl (3 / 2), 2 \<mapsto> NaN, 3 \<mapsto> Fl 3], [Fl 1, Fl 2, Fl 3],
                  [1 \<mapsto> [Fl 1, Fl 2], 2 \<mapsto> [], 3 \<mapsto> [Fl 3]])"
    by (simp add: compute_mode_fst upto_1_3 m p sp)
  have 2: "summarize empty_mode [1 \<mapsto> Fl (3 / 2), 2 \<mapsto> NaN, 3 \<mapsto> Fl 3] [Fl 1, Fl 2, Fl 3]
                     [1 \<mapsto> [Fl 1, Fl 2], 2 \<mapsto> [], 3 \<mapsto> [Fl 3]]
           = Inr \<lparr>per_state_means = [1 \<mapsto> Fl (3 / 2), 2 \<mapsto> NaN, 3 \<mapsto> Fl 3],
                  per_state_pairs = [1 \<mapsto> [Fl 1, Fl 2], 2 \<mapsto> [], 3 \<mapsto> [Fl 3]],
                  all_rms = [Fl 1, Fl 2, Fl 3],
                  overall_mean = Fl 2,
                  overall_sd = Fl 1\<rparr>"
    by (simp add: summarize_def statistics_mean_def statistics_stdev_def Let_def empty_mode_def)
  from 1 2 show ?thesis by (rule conjI)
qed

theorem worked_example_witness:
  "intra_fit example_env ''(1A1T) and (all)'' 1 = Inr (ReplySeq [Elem (Fl 1), Elem (Fl 2)])
   \<and> intra_fit example_env ''(1A1T) and (all)'' 2 = Inr (ReplySeq [])
   \<and> intra_fit example_env ''(1A1T) and (all)'' 3 = Inr (ReplySeq [Elem (Fl 3)])
   \<and> fst (compute_mode example_env False 3 ''(1A1T) and (all)'')
           = Inr ([1 \<mapsto> Fl (3 / 2), 2 \<mapsto> NaN, 3 \<mapsto> Fl 3],
                  [Fl 1, Fl 2, Fl 3],
                  [1 \<mapsto> [Fl 1, Fl 2], 2 \<mapsto> [], 3 \<mapsto> [Fl 3]])"
proof -
  have a: "intra_fit example_env ''(1A1T) and (all)'' 1 = Inr (ReplySeq [Elem (Fl 1), Elem (Fl 2)])"
    and b: "intra_fit example_env ''(1A1T) and (all)'' 2 = Inr (ReplySeq [])"
    and c: "intra_fit example_env ''(1A1T) and (all)'' 3 = Inr (ReplySeq [Elem (Fl 3)])"
    by (simp_all add: example_env_def)
  from worked_example [OF a b c, of False]
  have "fst (compute_mode example_env False 3 ''(1A1T) and (all)'')
           = Inr ([1 \<mapsto> Fl (3 / 2), 2 \<mapsto> NaN, 3 \<mapsto> Fl 3],
                  [Fl 1, Fl 2, Fl 3],
                  [1 \<mapsto> [Fl 1, Fl 2], 2 \<mapsto> [], 3 \<mapsto> [Fl 3]])"
    by (rule conjunct1)
  with a b c show ?thesis by blast
qed




text \<open>
  C6, as amended. With an object given and a display level other than 0, 1 and 2,
  \<^verbatim>\<open>calculate_rms_stats\<close> raises \<^verbatim>\<open>ValueError\<close> and the trace is empty: no collaborator has
  been queried and nothing has been printed.
\<close>

theorem invalid_display_level_raises:
  assumes "dl \<notin> {0, 1, 2}"
  shows "calculate_rms_stats e (Some obj) sel q dl ex rp
           = (Raised (ValueError ''display_level must be 0, 1, or 2''), [])"
  using assms by (simp add: calculate_rms_stats_def)

theorem invalid_display_level_raises_witness:
  "(3::int) \<notin> {0, 1, 2}
   \<and> calculate_rms_stats demo_env (Some ''1A1T'') ''all'' False 3 False ''.''
       = (Raised (ValueError ''display_level must be 0, 1, or 2''), [])"
proof -
  have h: "(3::int) \<notin> {0, 1, 2}" by simp
  from h invalid_display_level_raises [OF h] show ?thesis by (rule conjI)
qed

text \<open>
  C6 as stated speaks of every invocation. Without an object the help is returned before the
  display level is looked at, so display level 3 does not raise there.
\<close>

theorem invalid_display_level_without_object:
  "(3::int) \<notin> {0, 1, 2}
   \<and> \<not> is_raised (fst (calculate_rms_stats demo_env None ''all'' True 3 False ''.''))"
  by (simp add: calculate_rms_stats_def)

text \<open>
  C7, as amended. At every level the report is the head, the line that names the level, the
  selection block with the summary table, then what the level adds, then the foot. Level 0
  adds a note that the per-state and per-pair output is suppressed, and holds no per-state
  table and no per-pair table. Level 1 adds the per-state block, with exactly one per-state
  table for each mode, and a note that the per-pair output is suppressed. Level 2 adds the
  same per-state block and the per-pair detail, with two per-pair tables for every state,
  and no note. A table is counted by its header line.
\<close>

theorem levels_of_detail:
  "format_report_lines 0 sel base r
     = report_head @ [level_line 0] @ report_core sel base r @ [note_level_0] @ report_foot
   \<and> format_report_lines 1 sel base r
     = report_head @ [level_line 1] @ report_core sel base r @ per_state_block r
         @ [note_level_1] @ report_foot
   \<and> format_report_lines 2 sel base r
     = report_head @ [level_line 2] @ report_core sel base r @ per_state_block r
         @ detail_block r @ report_foot
   \<and> count_list (format_report_lines 0 sel base r) state_table_header = 0
   \<and> count_list (format_report_lines 0 sel base r) pair_table_header = 0
   \<and> count_list (format_report_lines 1 sel base r) state_table_header = 2
   \<and> count_list (format_report_lines 1 sel base r) pair_table_header = 0
   \<and> count_list (format_report_lines 2 sel base r) state_table_header = 2
   \<and> count_list (format_report_lines 2 sel base r) pair_table_header = 2 * length [1..states r]"
  by (simp add: format_report_lines_blocks head_no_header foot_no_header
                level_line_not_header notes_not_header core_no_header per_state_block_headers
                detail_block_headers)

text \<open>
  C7 as stated makes the lines of each level contain those of the level below. The line
  that names the level and the note on what is suppressed change from level to level: on the
  sample result the lines of level 0 are neither a prefix of nor contained in those of
  level 1, and the lines of level 1 are not contained in those of level 2.
\<close>

theorem level_0_not_within_level_1:
  "\<not> prefix (format_report_lines 0 ''all'' ''(1A1T) and (all)'' demo_result)
             (format_report_lines 1 ''all'' ''(1A1T) and (all)'' demo_result)
   \<and> \<not> set (format_report_lines 0 ''all'' ''(1A1T) and (all)'' demo_result)
         \<subseteq> set (format_report_lines 1 ''all'' ''(1A1T) and (all)'' demo_result)
   \<and> \<not> set (format_report_lines 1 ''all'' ''(1A1T) and (all)'' demo_result)
         \<subseteq> set (format_report_lines 2 ''all'' ''(1A1T) and (all)'' demo_result)"
  by code_simp

text \<open>
  C8, as amended. When the export is requested, the state count succeeds and the destination
  is an existing directory, the one file written is, inside that directory,
  \<^verbatim>\<open>rms_report_<object><_sel_<selection>>_<timestamp>.txt\<close>: the object with every character
  that is neither alphanumeric for \<^verbatim>\<open>str.isalnum\<close> nor a hyphen nor an underscore replaced
  by an underscore, cut to 30 characters; the selection part only for a selection that is
  not empty, not blank and not \<^verbatim>\<open>all\<close> in any case once stripped, with the same
  replacement, runs of underscores made single, underscores trimmed at both ends, cut to 40
  characters; the time stamp of the shape \<^verbatim>\<open>YYYYMMDD_HHMMSS\<close>. On ASCII characters the
  characters kept are exactly those of \<open>[A-Za-z0-9_-]\<close>.
\<close>

theorem export_filename:
  assumes "dl = 0 \<or> dl = 1 \<or> dl = 2"
    and "count_states e obj = Inr n"
    and "is_dir e rp = Inr True"
    and "valid_datetime (now e)"
  shows "(\<exists>text. filter is_write (snd (calculate_rms_stats e (Some obj) sel q dl True rp))
                  = [WriteText (InDir rp (spec_filename kept_char obj sel (strftime (now e)))) text])
       \<and> is_timestamp (strftime (now e))
       \<and> (\<forall>c. code_point c < 128 \<longrightarrow> kept_char c = ascii_name_char c)"
proof -
  have "filter is_write (snd (calculate_rms_stats e (Some obj) sel q dl True rp))
      = filter is_write (run_events e (Some obj) sel dl True rp)"
    using writes_silent [of "snd (calculate_rms_stats e (Some obj) sel q dl True rp)"]
    by (simp add: silent_run)
  also have "\<exists>text. \<dots> = [WriteText (InDir rp (report_filename obj sel (now e))) text]"
    using assms(1-3)
    by (auto simp: run_events_def Let_def export_events_def writes_intra_fit)
  finally have 1: "\<exists>text. filter is_write (snd (calculate_rms_stats e (Some obj) sel q dl True rp))
                  = [WriteText (InDir rp (spec_filename kept_char obj sel (strftime (now e)))) text]"
    by (simp add: report_filename_spec)
  from 1 strftime_shape [OF assms(4)] kept_char_ascii show ?thesis by blast
qed

theorem export_filename_witness:
  "((1::int) = 0 \<or> (1::int) = 1 \<or> (1::int) = 2)
   \<and> count_states demo_env ''1A1T'' = Inr 3
   \<and> is_dir demo_env ''reports'' = Inr True
   \<and> valid_datetime (now demo_env)
   \<and> (\<exists>text. filter is_write (snd (calculate_rms_stats demo_env (Some ''1A1T'') ''chain A'' True 1 True ''reports''))
                  = [WriteText (InDir ''reports'' ''rms_report_1A1T_sel_chain_A_20250309_140507.txt'') text])
   \<and> (\<exists>text. filter is_write (snd (calculate_rms_stats demo_env (Some ''1A1T'') ''all'' True 1 True ''reports''))
                  = [WriteText (InDir ''reports'' ''rms_report_1A1T_20250309_140507.txt'') text])
   \<and> is_timestamp ''20250309_140507''"
proof -
  have h: "(1::int) = 0 \<or> (1::int) = 1 \<or> (1::int) = 2" by simp
  have s: "count_states demo_env ''1A1T'' = Inr 3" and d: "is_dir demo_env ''reports'' = Inr True"
    by (simp_all add: demo_env_simps)
  have v: "valid_datetime (now demo_env)"
    by (simp add: valid_datetime_def demo_env_simps)
  note a = export_filename [OF h s d v, where sel = "''chain A''" and q = True]
  note b = export_filename [OF h s d v, where sel = "''all''" and q = True]
  have n1: "spec_filename kept_char ''1A1T'' ''chain A'' (strftime (now demo_env))
              = ''rms_report_1A1T_sel_chain_A_20250309_140507.txt''"
    using demo_name_sel by (simp add: report_filename_spec)
  have n2: "spec_filename kept_char ''1A1T'' ''all'' (strftime (now demo_env))
              = ''rms_report_1A1T_20250309_140507.txt''"
    using demo_name_plain by (simp add: report_filename_spec)
  from a have 1: "\<exists>text. filter is_write (snd (calculate_rms_stats demo_env (Some ''1A1T'') ''chain A'' True 1 True ''reports''))
                  = [WriteText (InDir ''reports'' ''rms_report_1A1T_sel_chain_A_20250309_140507.txt'') text]"
    unfolding n1 by blast
  from b have 2: "\<exists>text. filter is_write (snd (calculate_rms_stats demo_env (Some ''1A1T'') ''all'' True 1 True ''reports''))
                  = [WriteText (InDir ''reports'' ''rms_report_1A1T_20250309_140507.txt'') text]"
    unfolding n2 by blast
  from a have 3: "is_timestamp ''20250309_140507''"
    unfolding demo_stamp by blast
  from h s d v 1 2 3 show ?thesis by blast
qed

text \<open>
  C8 as stated replaces every character outside \<open>[A-Za-z0-9_-]\<close>. The letter U+00E9 is outside
  that class and alphanumeric for \<^verbatim>\<open>str.isalnum\<close>: the code keeps it.
\<close>

theorem non_ascii_letter_kept:
  "\<not> ascii_name_char (CHR 0xE9)
   \<and> report_filename [CHR 0xE9] ''all'' (now demo_env) = ''rms_report_'' @ [CHR 0xE9] @ ''_20250309_140507.txt''
   \<and> report_filename [CHR 0xE9] ''all'' (now demo_env)
       \<noteq> spec_filename ascii_name_char [CHR 0xE9] ''all'' (strftime (now demo_env))"
  by code_simp

text \<open>
  C9. Without an object, \<^verbatim>\<open>calculate_rms_stats\<close> returns the help text for every display
  level, valid or not; the trace holds the printed help unless \<^verbatim>\<open>quiet\<close>, and no query.
\<close>

theorem help_precedes_validation:
  "calculate_rms_stats e None sel q dl ex rp = (Help help_text, if q then [] else [Print help_text])"
  by (simp add: calculate_rms_stats_def)

text \<open>
  C10, as amended. For the same arguments and the same surroundings, when \<^verbatim>\<open>print\<close> does
  not raise, the outcome is the same with \<^verbatim>\<open>quiet\<close> true and false, and so is the trace once
  the prints are taken out: the same queries, the same file written with the same text.
  With \<^verbatim>\<open>quiet\<close> true nothing is printed, whatever \<^verbatim>\<open>print\<close> would do.
\<close>

theorem quiet_changes_prints_only:
  assumes "\<forall>s. print_raises f s = None"
  shows "fst (calculate_rms_stats_with f e obj sel True dl ex rp)
           = fst (calculate_rms_stats_with f e obj sel False dl ex rp)
       \<and> filter (\<lambda>x. \<not> is_print x) (snd (calculate_rms_stats_with f e obj sel True dl ex rp))
           = filter (\<lambda>x. \<not> is_print x) (snd (calculate_rms_stats_with f e obj sel False dl ex rp))
       \<and> filter is_print (snd (calculate_rms_stats_with f e obj sel True dl ex rp)) = []"
  using agree_run [OF assms, of e obj sel True dl ex rp False] printless_run [of f e obj sel dl ex rp]
  by (simp add: silent_def)

theorem quiet_changes_prints_only_witness:
  "(\<forall>s. print_raises no_faults s = None)
   \<and> fst (calculate_rms_stats_with no_faults demo_env (Some ''1A1T'') ''chain A'' True 2 True ''reports'')
       = fst (calculate_rms_stats_with no_faults demo_env (Some ''1A1T'') ''chain A'' False 2 True ''reports'')
   \<and> filter (\<lambda>x. \<not> is_print x)
        (snd (calculate_rms_stats_with no_faults demo_env (Some ''1A1T'') ''chain A'' True 2 True ''reports''))
       = filter (\<lambda>x. \<not> is_print x)
           (snd (calculate_rms_stats_with no_faults demo_env (Some ''1A1T'') ''chain A'' False 2 True ''reports''))
   \<and> filter is_print
        (snd (calculate_rms_stats_with no_faults demo_env (Some ''1A1T'') ''chain A'' True 2 True ''reports''))
       = []"
proof -
  have h: "\<forall>s. print_raises no_faults s = None" by (simp add: no_faults_def)
  from h quiet_changes_prints_only [OF h] show ?thesis by (rule conjI)
qed

text \<open>
  C10 as stated holds for every console. The \<^verbatim>\<open>print\<close> of line 379 is inside the \<^verbatim>\<open>try\<close>
  block of the export and is skipped when \<^verbatim>\<open>quiet\<close>. On a console that encodes ASCII only,
  with a report file whose resolved path holds the letter U+00E9, the call that is not
  quiet returns a result whose \<open>error\<close> says that the report could not be written, and the
  quiet call returns a result without error.
\<close>

theorem quiet_changes_the_result_when_print_raises:
  "fst (calculate_rms_stats_with ascii_console single_state_env (Some ''1A1T'') ''all''
          True 1 True ''report.txt'')
     \<noteq> fst (calculate_rms_stats_with ascii_console single_state_env (Some ''1A1T'') ''all''
               False 1 True ''report.txt'')
   \<and> is_returned (fst (calculate_rms_stats_with ascii_console single_state_env (Some ''1A1T'') ''all''
                       True 1 True ''report.txt''))
   \<and> error_of (fst (calculate_rms_stats_with ascii_console single_state_env (Some ''1A1T'') ''all''
                       True 1 True ''report.txt'')) = None
   \<and> is_returned (fst (calculate_rms_stats_with ascii_console single_state_env (Some ''1A1T'') ''all''
                       False 1 True ''report.txt''))
   \<and> error_of (fst (calculate_rms_stats_with ascii_console single_state_env (Some ''1A1T'') ''all''
                       False 1 True ''report.txt''))
       = Some ''Failed to write report to 'report.txt': ascii codec cannot encode character''"
proof -
  have d: "(1::int) = 0 \<or> (1::int) = 1 \<or> (1::int) = 2" by simp
  note r = single_state_run [OF ascii_console_no_huge d]
  show ?thesis
    unfolding r
    using finish_error [OF single_state_export_quiet] finish_error [OF single_state_export_loud]
    by auto
qed

end
